theory Spec2Isabelle
  imports Main "HOL-Library.Word"
begin

section \<open>JavaScript values\<close>

text \<open>
  The widget handles the conversion response and every caught error as values of the
  TypeScript type \<open>any\<close>, so the model carries JavaScript values. A string is a
  list of code units below 256 (\<open>atob\<close> returns exactly such strings). A number is
  carried by its decimal rendering (the result of \<open>Number::toString\<close>), the only
  thing the widget ever does with one. An object is an association list of its own
  enumerable properties with distinct keys. \<open>JErr name message props\<close> is an instance
  of \<open>Error\<close> (or of a subclass, or a \<open>DOMException\<close>): \<open>message\<close> is readable
  but not enumerable, \<open>props\<close> are the enumerable own properties.
\<close>

datatype jsval =
    JUndefined
  | JNull
  | JBool bool
  | JNum string
  | JStr string
  | JArr "jsval list"
  | JObj "(string \<times> jsval) list"
  | JErr string string "(string \<times> jsval) list"

text \<open>\<open>ToBoolean\<close>: what \<open>if (v)\<close>, \<open>v ? a : b\<close>, \<open>a && b\<close> and \<open>a || b\<close> test.\<close>

fun truthy :: "jsval \<Rightarrow> bool" where
  "truthy JUndefined = False"
| "truthy JNull = False"
| "truthy (JBool b) = b"
| "truthy (JNum s) = (s \<noteq> ''0'' \<and> s \<noteq> ''NaN'')"
| "truthy (JStr s) = (s \<noteq> [])"
| "truthy (JArr xs) = True"
| "truthy (JObj kvs) = True"
| "truthy (JErr n m kvs) = True"

fun nullish :: "jsval \<Rightarrow> bool" where
  "nullish JUndefined = True"
| "nullish JNull = True"
| "nullish _ = False"

fun join :: "string \<Rightarrow> string list \<Rightarrow> string" where
  "join sep [] = []"
| "join sep [x] = x"
| "join sep (x # y # ys) = x @ sep @ join sep (y # ys)"

text \<open>
  \<open>ToString\<close>: what a template literal \<open>${v}\<close> inserts, \<open>None\<close> when it throws a
  \<open>TypeError\<close>. An array joins its elements with commas, an undefined or null element
  giving the empty string. An object is converted by its \<open>toString\<close> method: the
  inherited one gives \<open>[object Object]\<close> (for an error, its name and message); an
  own property \<open>toString\<close> hides it, and as no value here is a function the
  conversion then finds nothing to call (the inherited \<open>valueOf\<close> returns the object
  itself) and throws.
\<close>

primrec to_string :: "jsval \<Rightarrow> string option" where
  "to_string JUndefined = Some ''undefined''"
| "to_string JNull = Some ''null''"
| "to_string (JBool b) = Some (if b then ''true'' else ''false'')"
| "to_string (JNum s) = Some s"
| "to_string (JStr s) = Some s"
| "to_string (JArr xs) =
     map_option (join '','')
       (those (map2 (\<lambda>x r. if nullish x then Some [] else r) xs (map to_string xs)))"
| "to_string (JObj kvs) =
     (if map_of kvs ''toString'' = None then Some ''[object Object]'' else None)"
| "to_string (JErr n m kvs) =
     (if map_of kvs ''toString'' = None
      then Some (if n = [] then m else if m = [] then n else n @ '': '' @ m)
      else None)"

text \<open>
  Property read \<open>v?.k\<close>, and \<open>v.k\<close> on a value that is neither undefined nor null.
  It is used at the keys the widget reads (\<open>success\<close>, \<open>pdf_data\<close>, \<open>error\<close>,
  \<open>message\<close>, \<open>error_type\<close>, \<open>traceback\<close>, \<open>file_path\<close>, \<open>full_path\<close>), none
  of which a primitive or an array has.
\<close>

fun get_prop :: "string \<Rightarrow> jsval \<Rightarrow> jsval" where
  "get_prop k (JObj kvs) = (case map_of kvs k of Some v \<Rightarrow> v | None \<Rightarrow> JUndefined)"
| "get_prop k (JErr n m kvs) =
     (if k = ''message'' then JStr m
      else case map_of kvs k of Some v \<Rightarrow> v | None \<Rightarrow> JUndefined)"
| "get_prop k _ = JUndefined"

subsection \<open>JSON.stringify\<close>

definition hex_digit :: "nat \<Rightarrow> char" where
  "hex_digit n = ''0123456789abcdef'' ! (n mod 16)"

definition json_escape_char :: "char \<Rightarrow> string" where
  "json_escape_char c =
     (let n = (of_char c :: nat) in
      if n = 0x22 then [CHR 0x5C, CHR 0x22]
      else if n = 0x5C then [CHR 0x5C, CHR 0x5C]
      else if n = 8 then [CHR 0x5C, CHR ''b'']
      else if n = 12 then [CHR 0x5C, CHR ''f'']
      else if n = 10 then [CHR 0x5C, CHR ''n'']
      else if n = 13 then [CHR 0x5C, CHR ''r'']
      else if n = 9 then [CHR 0x5C, CHR ''t'']
      else if n < 32 then [CHR 0x5C, CHR ''u'', CHR ''0'', CHR ''0'', hex_digit (n div 16), hex_digit n]
      else [c])"

definition json_quote :: "string \<Rightarrow> string" where
  "json_quote s = [CHR 0x22] @ concat (map json_escape_char s) @ [CHR 0x22]"

text \<open>
  The serialisation of a value inside a document: an undefined array element is
  \<open>null\<close>, a property whose value is undefined is left out, a number that is not
  finite is \<open>null\<close>, and an error object serialises its enumerable properties only.
\<close>

definition json_members :: "(string \<times> jsval) list \<Rightarrow> (string \<times> string) list \<Rightarrow> string list" where
  "json_members kvs sers =
     map (\<lambda>(kv, ks). json_quote (fst kv) @ '':'' @ snd ks)
       (filter (\<lambda>(kv, ks). snd kv \<noteq> JUndefined) (zip kvs sers))"

primrec json_serialize :: "jsval \<Rightarrow> string" where
  "json_serialize JUndefined = ''null''"
| "json_serialize JNull = ''null''"
| "json_serialize (JBool b) = (if b then ''true'' else ''false'')"
| "json_serialize (JNum s) =
     (if s = ''NaN'' \<or> s = ''Infinity'' \<or> s = ''-Infinity'' then ''null'' else s)"
| "json_serialize (JStr s) = json_quote s"
| "json_serialize (JArr xs) = ''['' @ join '','' (map json_serialize xs) @ '']''"
| "json_serialize (JObj kvs) =
     ''{'' @ join '','' (json_members kvs (map (map_prod id json_serialize) kvs)) @ ''}''"
| "json_serialize (JErr n m kvs) =
     ''{'' @ join '','' (json_members kvs (map (map_prod id json_serialize) kvs)) @ ''}''"

text \<open>\<open>JSON.stringify(v)\<close>: undefined for undefined, the serialisation otherwise.\<close>

definition json_stringify :: "jsval \<Rightarrow> jsval" where
  "json_stringify v = (if v = JUndefined then JUndefined else JStr (json_serialize v))"

subsection \<open>The platform\<close>

text \<open>
  What the browser supplies and the widget cannot see into: \<open>JSON.parse\<close> (\<open>None\<close>
  when it throws a \<open>SyntaxError\<close>) and the identifier that \<open>URL.createObjectURL\<close>
  puts after \<open>blob:\<close>.
\<close>

record platform =
  json_parse :: "string \<Rightarrow> jsval option"
  url_id :: string

definition syntax_error :: jsval where
  "syntax_error = JErr ''SyntaxError'' ''Unexpected token in JSON'' []"

definition invalid_character_error :: jsval where
  "invalid_character_error =
     JErr ''InvalidCharacterError'' ''The string to be decoded is not correctly encoded.'' []"

definition conversion_error :: jsval where
  "conversion_error = JErr ''TypeError'' ''Cannot convert object to primitive value'' []"

definition type_error :: "string \<Rightarrow> jsval" where
  "type_error k = JErr ''TypeError'' (''Cannot read properties of null or undefined (reading '' @ k @ '')'') []"

section \<open>Base64\<close>

type_synonym byte = "8 word"

definition b64_alphabet :: string where
  "b64_alphabet = ''ABCDEFGHIJKLMNOPQRSTUVWXYZabcdefghijklmnopqrstuvwxyz0123456789+/''"

definition b64_char :: "nat \<Rightarrow> char" where
  "b64_char i = b64_alphabet ! (i mod 64)"

text \<open>
  Modelled from the spec: the ResponseEncoder's base64 encoding of the PDF bytes (section
  4.4: "binary PDF bytes are encoded into a transport-safe text representation
  (base64)"). The server-side encoder is not among the sources; this is the standard
  alphabet with \<open>=\<close> padding (RFC 4648, section 4).
\<close>

fun b64encode_nat :: "nat list \<Rightarrow> string" where
  "b64encode_nat [] = []"
| "b64encode_nat [a] =
     [b64_char (a div 4), b64_char ((a mod 4) * 16), CHR ''='', CHR ''='']"
| "b64encode_nat [a, b] =
     [b64_char (a div 4), b64_char ((a mod 4) * 16 + b div 16),
      b64_char ((b mod 16) * 4), CHR ''='']"
| "b64encode_nat (a # b # c # rest) =
     [b64_char (a div 4), b64_char ((a mod 4) * 16 + b div 16),
      b64_char ((b mod 16) * 4 + c div 64), b64_char (c mod 64)] @ b64encode_nat rest"

definition b64encode :: "byte list \<Rightarrow> string" where
  "b64encode bs = b64encode_nat (map unat bs)"

text \<open>
  The six-bit groups the encoder writes, and the number of \<open>=\<close> it pads with.
\<close>

fun sextets :: "nat list \<Rightarrow> nat list" where
  "sextets [] = []"
| "sextets [a] = [a div 4, (a mod 4) * 16]"
| "sextets [a, b] = [a div 4, (a mod 4) * 16 + b div 16, (b mod 16) * 4]"
| "sextets (a # b # c # rest) =
     [a div 4, (a mod 4) * 16 + b div 16, (b mod 16) * 4 + c div 64, c mod 64] @ sextets rest"

definition pad_count :: "nat list \<Rightarrow> nat" where
  "pad_count ns = (3 - length ns mod 3) mod 3"

text \<open>
  The browser's \<open>atob\<close> (the forgiving-base64 decode of the WHATWG Infra standard):
  ASCII whitespace is removed; when the length is a multiple of four, one or two
  trailing \<open>=\<close> are removed; a length of 1 modulo 4 or a character outside the
  alphabet fails (\<open>None\<close>: an \<open>InvalidCharacterError\<close> is thrown); each character
  adds six bits, every 24 bits give three bytes, and a rest of 12 or 18 bits gives one
  or two bytes. The result is a string of code units below 256.
\<close>

fun index_of :: "'a \<Rightarrow> 'a list \<Rightarrow> nat option" where
  "index_of x [] = None"
| "index_of x (y # ys) = (if x = y then Some 0 else map_option Suc (index_of x ys))"

definition is_ascii_whitespace :: "char \<Rightarrow> bool" where
  "is_ascii_whitespace c = (of_char c \<in> {9::nat, 10, 12, 13, 32})"

definition strip_padding :: "string \<Rightarrow> string" where
  "strip_padding d =
     (if length d mod 4 = 0 then
        (case rev d of
           c1 # c2 # r \<Rightarrow>
             if c1 = CHR ''='' \<and> c2 = CHR ''='' then rev r
             else if c1 = CHR ''='' then rev (c2 # r)
             else d
         | _ \<Rightarrow> d)
      else d)"

fun decode_sextets :: "nat list \<Rightarrow> nat list" where
  "decode_sextets (i1 # i2 # i3 # i4 # rest) =
     (let n = ((i1 * 64 + i2) * 64 + i3) * 64 + i4
      in [n div 65536 mod 256, n div 256 mod 256, n mod 256] @ decode_sextets rest)"
| "decode_sextets [i1, i2, i3] =
     (let n = ((i1 * 64 + i2) * 64 + i3) div 4
      in [n div 256 mod 256, n mod 256])"
| "decode_sextets [i1, i2] =
     (let n = (i1 * 64 + i2) div 16
      in [n mod 256])"
| "decode_sextets _ = []"

definition atob :: "string \<Rightarrow> string option" where
  "atob s =
     (let d = strip_padding (filter (\<lambda>c. \<not> is_ascii_whitespace c) s)
      in if length d mod 4 = 1 then None
         else if list_ex (\<lambda>c. index_of c b64_alphabet = None) d then None
         else Some (map char_of (decode_sextets (map (\<lambda>c. the (index_of c b64_alphabet)) d))))"

subsection \<open>\<open>_base64ToBlob\<close>\<close>

record blob =
  blob_bytes :: "byte list"
  blob_type :: string

definition blob_size :: "blob \<Rightarrow> nat" where
  "blob_size b = length (blob_bytes b)"

text \<open>
  The \<open>for\<close> loop that writes \<open>byteCharacters.charCodeAt(i)\<close> into
  \<open>byteNumbers[i]\<close>, from \<open>i\<close> up to the length of the string.
\<close>

function charCode_loop :: "string \<Rightarrow> nat \<Rightarrow> nat list \<Rightarrow> nat list" where
  "charCode_loop byteCharacters i byteNumbers =
     (if i < length byteCharacters
      then charCode_loop byteCharacters (Suc i) (byteNumbers[i := of_char (byteCharacters ! i)])
      else byteNumbers)"
  by pat_completeness auto
termination
  by (relation "measure (\<lambda>(s, i, arr). length s - i)") auto

text \<open>
  \<open>new Array(n)\<close> has \<open>n\<close> empty slots; an empty slot reads as 0 in
  \<open>new Uint8Array(byteNumbers)\<close>, which stores every number modulo 256.
\<close>

definition new_Array :: "nat \<Rightarrow> nat list" where
  "new_Array n = replicate n 0"

definition Uint8Array :: "nat list \<Rightarrow> byte list" where
  "Uint8Array ns = map of_nat ns"

text \<open>
  \<open>atob\<close> converts its argument by \<open>ToString\<close> first; both that conversion and
  the decoding can throw.
\<close>

definition base64ToBlob :: "jsval \<Rightarrow> string \<Rightarrow> jsval + blob" where
  "base64ToBlob base64 contentType =
     (case to_string base64 of
        None \<Rightarrow> Inl conversion_error
      | Some encoded \<Rightarrow>
          (case atob encoded of
             None \<Rightarrow> Inl invalid_character_error
           | Some byteCharacters \<Rightarrow>
               (let byteNumbers = charCode_loop byteCharacters 0 (new_Array (length byteCharacters));
                    byteArray = Uint8Array byteNumbers
                in Inr \<lparr>blob_bytes = byteArray, blob_type = contentType\<rparr>)))"

section \<open>The document reader widget\<close>

subsection \<open>\<open>_escapeHtml\<close>\<close>

text \<open>
  \<open>div.textContent = text; return div.innerHTML\<close>. The setter of \<open>textContent\<close>
  takes undefined and null as the empty string and any other value by \<open>ToString\<close>,
  which can throw; reading \<open>innerHTML\<close> serialises the text node, replacing \<open>&\<close>,
  \<open><\<close>, \<open>>\<close> and the no-break space.
\<close>

definition dom_string :: "jsval \<Rightarrow> string option" where
  "dom_string v = (if nullish v then Some [] else to_string v)"

definition escape_char :: "char \<Rightarrow> string" where
  "escape_char c =
     (if c = CHR ''&'' then ''&amp;''
      else if c = CHR ''<'' then ''&lt;''
      else if c = CHR ''>'' then ''&gt;''
      else if c = CHR 0xA0 then ''&nbsp;''
      else [c])"

definition escapeHtml :: "jsval \<Rightarrow> string option" where
  "escapeHtml text = map_option (\<lambda>s. concat (map escape_char s)) (dom_string text)"

subsection \<open>State\<close>

text \<open>
  The fields of \<open>DocReaderWidget\<close> and of the elements it owns that the methods read
  or write, the state of the \<open>_ready\<close> promise, the state of the promise that the
  asynchronous \<open>_loadDocument\<close> returns (rejected when an exception leaves the method;
  the constructor discards it with \<open>void\<close>), the \<open>isDisposed\<close> flag of the Lumino
  base class, and two logs of what the widget asked of its environment: the requests
  sent through \<open>requestAPI\<close>, and the object URLs created and revoked. The markup of
  the template literals is kept, without the line breaks and indentation between
  tags; the size, border, padding and colour styles set in the constructor are left
  out.
\<close>

record doc_context =
  path :: string
  localPath :: string

datatype promise_state = Pending | Resolved | Rejected jsval

datatype child = ErrorDiv | Iframe | Embed string string

record api_request =
  endPoint :: string
  http_method :: string
  body :: jsval

record widget =
  ctx :: doc_context
  title_label :: string
  iframe_src :: string
  iframe_srcdoc :: string
  iframe_display :: string
  errorDiv_display :: string
  errorDiv_innerHTML :: string
  node_children :: "child list"
  ready :: promise_state
  loadDocument_promise :: promise_state
  awaiting :: bool
  isDisposed :: bool
  requests :: "api_request list"
  created_urls :: "(string \<times> blob) list"
  revoked_urls :: "string list"

definition resolve :: "promise_state \<Rightarrow> promise_state" where
  "resolve p = (if p = Pending then Resolved else p)"

definition reject :: "jsval \<Rightarrow> promise_state \<Rightarrow> promise_state" where
  "reject reason p = (if p = Pending then Rejected reason else p)"

datatype viewer_state = Loading | Rendered | Failed

text \<open>
  The state of the viewer is the state of \<open>_ready\<close>: pending from the constructor
  on, resolved in the branch that mounts the PDF, rejected in the handler that shows
  the error panel.
\<close>

definition viewer_state_of :: "widget \<Rightarrow> viewer_state" where
  "viewer_state_of w =
     (case ready w of Pending \<Rightarrow> Loading | Resolved \<Rightarrow> Rendered | Rejected e \<Rightarrow> Failed)"

subsection \<open>\<open>_showError\<close>\<close>

definition errorMessage_of :: "jsval \<Rightarrow> jsval" where
  "errorMessage_of error =
     (if truthy (get_prop ''error'' error) then get_prop ''error'' error
      else if truthy (get_prop ''message'' error) then get_prop ''message'' error
      else if (case error of JStr s \<Rightarrow> True | _ \<Rightarrow> False) then error
      else json_stringify error)"

definition errorType_of :: "jsval \<Rightarrow> jsval" where
  "errorType_of error =
     (if truthy (get_prop ''error_type'' error) then get_prop ''error_type'' error
      else JStr ''Error'')"

definition traceback_of :: "jsval \<Rightarrow> jsval" where
  "traceback_of error =
     (if truthy (get_prop ''traceback'' error) then get_prop ''traceback'' error
      else JStr [])"

text \<open>
  The path block, the traceback section and the panel. Every \<open>${...}\<close> of a template
  converts by \<open>ToString\<close> and every \<open>_escapeHtml\<close> by the setter of
  \<open>textContent\<close>; \<open>None\<close> is the \<open>TypeError\<close> of a conversion that throws.
\<close>

definition debugInfo_of :: "jsval \<Rightarrow> string option" where
  \<open>debugInfo_of error =
     (if truthy (get_prop ''file_path'' error) \<or> truthy (get_prop ''full_path'' error) then
        (case (if truthy (get_prop ''file_path'' error)
               then map_option
                      (\<lambda>p. ''<div style="margin: 5px 0;"><strong>Requested path:</strong> <code>''
                            @ p @ ''</code></div>'')
                      (to_string (get_prop ''file_path'' error))
               else Some []) of
           None \<Rightarrow> None
         | Some requested \<Rightarrow>
             (case (if truthy (get_prop ''full_path'' error)
                    then map_option
                           (\<lambda>p. ''<div style="margin: 5px 0;"><strong>Full path:</strong> <code>''
                                 @ p @ ''</code></div>'')
                           (to_string (get_prop ''full_path'' error))
                    else Some []) of
                None \<Rightarrow> None
              | Some full \<Rightarrow>
                  Some (''<div style="margin-top: 15px; padding: 10px; background: #f5f5f5; border-radius: 4px;">''
                        @ ''<strong>Debug Information:</strong><br>''
                        @ requested
                        @ full
                        @ ''</div>'')))
      else Some [])\<close>

definition tracebackSection_of :: "jsval \<Rightarrow> string option" where
  \<open>tracebackSection_of traceback =
     (if truthy traceback then
        map_option
          (\<lambda>t. ''<details style="margin-top: 15px;">''
                @ ''<summary style="cursor: pointer; font-weight: bold; padding: 10px; background: #f5f5f5; border-radius: 4px;">''
                @ ''View Full Traceback''
                @ ''</summary>''
                @ ''<pre style="margin: 10px 0; padding: 10px; background: #2d2d2d; color: #f8f8f8; border-radius: 4px; overflow-x: auto; font-size: 12px; line-height: 1.4;">''
                @ t @ ''</pre>''
                @ ''</details>'')
          (escapeHtml traceback)
      else Some [])\<close>

definition troubleshooting :: string where
  \<open>troubleshooting =
     ''<div style="margin-top: 20px; padding: 15px; background: #e3f2fd; border-radius: 4px;">''
     @ ''<strong>Troubleshooting:</strong>''
     @ ''<ul style="margin: 10px 0; padding-left: 20px;">''
     @ ''<li>Check that mammoth and weasyprint are installed: <code>pip list | grep -E "mammoth|weasyprint"</code></li>''
     @ ''<li>Verify the extension is properly installed: <code>jupyter server extension list</code></li>''
     @ ''<li>Check the file is a valid DOCX, DOC, or RTF document</li>''
     @ ''<li>Ensure the file is not corrupted or password-protected</li>''
     @ ''<li>For legacy DOC files, consider converting to DOCX format</li>''
     @ ''<li>Check JupyterLab logs for more details: <code>/var/log/jupyterlab.log</code></li>''
     @ ''</ul>''
     @ ''</div>''\<close>

text \<open>
  The template assigned to \<open>innerHTML\<close>, as a function of the four texts it inserts:
  the escaped error type, the escaped message, the path block and the traceback section.
\<close>

definition panel_template :: "string \<Rightarrow> string \<Rightarrow> string \<Rightarrow> string \<Rightarrow> string" where
  \<open>panel_template errorType errorMessage debugInfo tracebackSection =
     ''<div style="padding: 20px; font-family: sans-serif; overflow-y: auto; max-height: 100%;">''
     @ ''<h3 style="color: #d32f2f; margin: 0 0 15px 0;">Failed to load document</h3>''
     @ ''<div style="margin-bottom: 15px;">''
     @ ''<strong>Error Type:</strong> <code>'' @ errorType @ ''</code>''
     @ ''</div>''
     @ ''<div style="margin-bottom: 15px; padding: 10px; background: #ffebee; border-left: 4px solid #d32f2f; border-radius: 4px;">''
     @ ''<strong>Error Message:</strong><br>''
     @ ''<pre style="margin: 5px 0; white-space: pre-wrap; font-family: monospace;">''
     @ errorMessage @ ''</pre>''
     @ ''</div>''
     @ debugInfo
     @ tracebackSection
     @ troubleshooting
     @ ''</div>''\<close>

text \<open>
  The texts are computed in the order of the source: the path block, the traceback
  section, then, inside the template, the error type and the message.
\<close>

definition error_panel :: "jsval \<Rightarrow> string option" where
  "error_panel error =
     (case debugInfo_of error of
        None \<Rightarrow> None
      | Some debugInfo \<Rightarrow>
          (case tracebackSection_of (traceback_of error) of
             None \<Rightarrow> None
           | Some tracebackSection \<Rightarrow>
               (case escapeHtml (errorType_of error) of
                  None \<Rightarrow> None
                | Some errorType \<Rightarrow>
                    (case escapeHtml (errorMessage_of error) of
                       None \<Rightarrow> None
                     | Some errorMessage \<Rightarrow>
                         Some (panel_template errorType errorMessage debugInfo tracebackSection)))))"

text \<open>
  \<open>_showError\<close> hides the iframe and shows the error div before it builds the panel.
  It returns the widget it leaves and the exception it throws, if any: when a conversion
  throws, \<open>innerHTML\<close> is not assigned.
\<close>

definition showError :: "jsval \<Rightarrow> widget \<Rightarrow> widget \<times> jsval option" where
  "showError error w =
     (let w1 = w\<lparr>iframe_display := ''none'', errorDiv_display := ''block''\<rparr>
      in case error_panel error of
           None \<Rightarrow> (w1, Some conversion_error)
         | Some html \<Rightarrow> (w1\<lparr>errorDiv_innerHTML := html\<rparr>, None))"

subsection \<open>The constructor and \<open>_loadDocument\<close>\<close>

definition loading_placeholder :: string where
  \<open>loading_placeholder =
     ''<html>''
     @ ''<body style="display: flex; justify-content: center; align-items: center; height: 100vh; margin: 0; font-family: sans-serif;">''
     @ ''<div style="text-align: center;">''
     @ ''<div style="font-size: 18px; margin-bottom: 10px;">Converting document...</div>''
     @ ''<div style="font-size: 14px; color: #666;">Please wait while we process your file</div>''
     @ ''</div>''
     @ ''</body>''
     @ ''</html>''\<close>

definition convert_request :: "string \<Rightarrow> api_request" where
  "convert_request p =
     \<lparr>endPoint = ''convert'', http_method = ''POST'',
      body = json_stringify (JObj [(''path'', JStr p)])\<rparr>"

text \<open>
  \<open>_loadDocument\<close> up to its \<open>await\<close>: the loading placeholder is shown and the
  one request is sent.
\<close>

definition loadDocument_begin :: "widget \<Rightarrow> widget" where
  "loadDocument_begin w =
     w\<lparr>iframe_srcdoc := loading_placeholder,
       requests := requests w @ [convert_request (path (ctx w))],
       awaiting := True\<rparr>"

text \<open>
  The constructor: the two elements are created and appended, and the load is started
  (\<open>void this._loadDocument()\<close> runs the method up to its \<open>await\<close>).
\<close>

definition new_widget :: "doc_context \<Rightarrow> widget" where
  "new_widget c =
     loadDocument_begin
       \<lparr>ctx = c,
        title_label = localPath c,
        iframe_src = [],
        iframe_srcdoc = [],
        iframe_display = [],
        errorDiv_display = ''none'',
        errorDiv_innerHTML = [],
        node_children = [ErrorDiv, Iframe],
        ready = Pending,
        loadDocument_promise = Pending,
        awaiting = False,
        isDisposed = False,
        requests = [],
        created_urls = [],
        revoked_urls = []\<rparr>"

text \<open>How the request of \<open>requestAPI\<close> settles: with a response, or rejected with an error.\<close>

datatype outcome = Fulfilled jsval | RejectedWith jsval

text \<open>
  \<open>try { body } catch { handler }\<close>: a value thrown by the body (\<open>Inl\<close>) goes to the
  handler, whatever statement of the body threw it.
\<close>

definition try_catch :: "('e + 'a) \<Rightarrow> ('e \<Rightarrow> 'e + 'a) \<Rightarrow> 'e + 'a" where
  "try_catch block handler = (case block of Inl e \<Rightarrow> handler e | Inr x \<Rightarrow> Inr x)"

text \<open>
  The handler \<open>catch (apiError)\<close> of the request. Its inner \<open>try\<close> parses
  \<open>apiError.message\<close> and throws the parsed \<open>errorData\<close>; both that throw and a
  \<open>SyntaxError\<close> of \<open>JSON.parse\<close> are thrown inside the inner \<open>try\<close>, whose
  \<open>catch\<close> throws \<open>apiError\<close>.
\<close>

definition parse_and_throw :: "platform \<Rightarrow> jsval \<Rightarrow> jsval + jsval" where
  "parse_and_throw pf apiError =
     (case to_string (get_prop ''message'' apiError) of
        None \<Rightarrow> Inl conversion_error
      | Some text \<Rightarrow>
          (case json_parse pf text of
             None \<Rightarrow> Inl syntax_error
           | Some errorData \<Rightarrow> Inl errorData))"

definition catch_apiError :: "platform \<Rightarrow> jsval \<Rightarrow> jsval + jsval" where
  "catch_apiError pf apiError =
     (if truthy (get_prop ''message'' apiError)
      then try_catch (parse_and_throw pf apiError) (\<lambda>e. Inl apiError)
      else Inl apiError)"

definition await_response :: "platform \<Rightarrow> outcome \<Rightarrow> jsval + jsval" where
  "await_response pf out =
     (case out of
        Fulfilled response \<Rightarrow> Inr response
      | RejectedWith apiError \<Rightarrow> catch_apiError pf apiError)"

definition createObjectURL :: "platform \<Rightarrow> blob \<Rightarrow> string" where
  "createObjectURL pf b = ''blob:'' @ url_id pf"

text \<open>
  The rest of the outer \<open>try\<close> block, once \<open>response\<close> is there. Reading
  \<open>response.success\<close> of undefined or null throws a \<open>TypeError\<close>; \<open>_base64ToBlob\<close>
  throws when \<open>atob\<close> does. Both happen before the first assignment, so a thrown
  value leaves the widget as it was.
\<close>

definition process_response :: "platform \<Rightarrow> jsval \<Rightarrow> widget \<Rightarrow> jsval + widget" where
  "process_response pf response w =
     (if nullish response then Inl (type_error ''success'')
      else if truthy (get_prop ''success'' response) \<and> truthy (get_prop ''pdf_data'' response) then
        (case base64ToBlob (get_prop ''pdf_data'' response) ''application/pdf'' of
           Inl e \<Rightarrow> Inl e
         | Inr pdfBlob \<Rightarrow>
             (let pdfUrl = createObjectURL pf pdfBlob
              in Inr (w\<lparr>created_urls := created_urls w @ [(pdfUrl, pdfBlob)],
                        iframe_srcdoc := [],
                        iframe_display := ''none'',
                        node_children := [Embed pdfUrl ''application/pdf''],
                        ready := resolve (ready w)\<rparr>)))
      else Inl response)"

text \<open>
  The outer \<open>try\<close> block from the \<open>await\<close> on: the widget it leaves, or the value it
  throws to \<open>catch (error)\<close>.
\<close>

definition load_try :: "platform \<Rightarrow> outcome \<Rightarrow> widget \<Rightarrow> jsval + widget" where
  "load_try pf out w =
     (case await_response pf out of
        Inl e \<Rightarrow> Inl e
      | Inr response \<Rightarrow> process_response pf response w)"

text \<open>
  \<open>_loadDocument\<close> from its \<open>await\<close> on, with the outer \<open>catch (error)\<close>:
  \<open>_showError(error)\<close>, then \<open>_ready.reject(error)\<close>. The method returns normally
  unless \<open>_showError\<close> throws; then the exception leaves the method, \<open>_ready\<close> is
  not rejected, and the promise of the method is rejected with the exception.
\<close>

definition loadDocument_resume :: "platform \<Rightarrow> outcome \<Rightarrow> widget \<Rightarrow> widget" where
  "loadDocument_resume pf out w =
     (case load_try pf out w of
        Inr w' \<Rightarrow> w'\<lparr>loadDocument_promise := resolve (loadDocument_promise w')\<rparr>
      | Inl error \<Rightarrow>
          (case showError error w of
             (w1, Some exception) \<Rightarrow>
               w1\<lparr>loadDocument_promise := reject exception (loadDocument_promise w1)\<rparr>
           | (w1, None) \<Rightarrow>
               w1\<lparr>ready := reject error (ready w1),
                  loadDocument_promise := resolve (loadDocument_promise w1)\<rparr>))"

subsection \<open>\<open>dispose\<close>\<close>

definition startsWith :: "string \<Rightarrow> string \<Rightarrow> bool" where
  "startsWith s p = (take (length p) s = p)"

definition revokeObjectURL :: "string \<Rightarrow> widget \<Rightarrow> widget" where
  "revokeObjectURL url w = w\<lparr>revoked_urls := revoked_urls w @ [url]\<rparr>"

text \<open>\<open>super.dispose()\<close>: the Lumino base class sets the flag that \<open>isDisposed\<close> reads.\<close>

definition super_dispose :: "widget \<Rightarrow> widget" where
  "super_dispose w = w\<lparr>isDisposed := True\<rparr>"

definition dispose :: "widget \<Rightarrow> widget" where
  "dispose w =
     (if isDisposed w then w
      else super_dispose
             (if startsWith (iframe_src w) ''blob:''
              then revokeObjectURL (iframe_src w) w
              else w))"

subsection \<open>The life of a widget\<close>

text \<open>
  After the constructor, two things happen to a widget: its request settles, which
  runs the rest of \<open>_loadDocument\<close> once, and the host calls \<open>dispose\<close>, any
  number of times and in any order with the first.
\<close>

datatype event = RequestSettles outcome | DisposeCalled

fun step :: "platform \<Rightarrow> event \<Rightarrow> widget \<Rightarrow> widget" where
  "step pf (RequestSettles out) w =
     (if awaiting w then loadDocument_resume pf out (w\<lparr>awaiting := False\<rparr>) else w)"
| "step pf DisposeCalled w = dispose w"

fun run :: "platform \<Rightarrow> event list \<Rightarrow> widget \<Rightarrow> widget" where
  "run pf [] w = w"
| "run pf (ev # evs) w = run pf evs (step pf ev w)"

subsection \<open>What holds of every widget\<close>

text \<open>
  The invariant of the states a widget goes through: the \<open>src\<close> of the iframe is
  never set and nothing is revoked; while the request is awaited the promise is pending
  and no object URL exists; an object URL exists only once the promise is resolved.
\<close>

definition widget_inv :: "widget \<Rightarrow> bool" where
  "widget_inv w =
     (iframe_src w = [] \<and> revoked_urls w = []
      \<and> (if awaiting w then ready w = Pending \<and> created_urls w = [] else True)
      \<and> (if created_urls w = [] then True else ready w = Resolved))"

subsection \<open>What the panel needs of an error\<close>

text \<open>
  The values \<open>_showError\<close> converts to text: the two paths, the traceback, the error
  type and the message. \<open>fields_convert\<close> says that none of these conversions throws.
  \<open>string_or_absent\<close> is the type the failure envelope gives a field: a string, or
  nothing.
\<close>

definition shown_fields :: "jsval \<Rightarrow> jsval list" where
  "shown_fields error =
     [get_prop ''file_path'' error, get_prop ''full_path'' error, traceback_of error,
      errorType_of error, errorMessage_of error]"

definition fields_convert :: "jsval \<Rightarrow> bool" where
  "fields_convert error = list_all (\<lambda>v. to_string v \<noteq> None) (shown_fields error)"

definition string_or_absent :: "jsval \<Rightarrow> bool" where
  "string_or_absent v = (case v of JUndefined \<Rightarrow> True | JStr s \<Rightarrow> True | _ \<Rightarrow> False)"

definition is_object :: "jsval \<Rightarrow> bool" where
  "is_object v = (case v of JObj kvs \<Rightarrow> True | JErr n m kvs \<Rightarrow> True | _ \<Rightarrow> False)"

subsection \<open>Example inputs\<close>

text \<open>
  Scenario A (a response carrying the five bytes \<open>%PDF-\<close>), scenario B (\<open>PathNotFound\<close>
  for \<open>missing.docx\<close>, as a payload and as the rejection whose message is that payload's
  JSON text), a payload whose path holds markup, a rejection whose message is not
  JSON, and four responses outside the envelope's types: an \<open>error\<close> that is an empty
  array, an \<open>error_type\<close> and a \<open>file_path\<close> that are objects with a \<open>toString\<close>
  property, and a \<open>success\<close> of 1 with an empty array as \<open>pdf_data\<close>. The example
  platform parses the text of the scenario B payload and nothing else.
\<close>

definition example_context :: doc_context where
  "example_context = \<lparr>path = ''notes.docx'', localPath = ''notes.docx''\<rparr>"

definition pdf_response :: jsval where
  "pdf_response =
     JObj [(''success'', JBool True), (''pdf_data'', JStr ''JVBERi0=''),
           (''filename'', JStr ''notes.pdf'')]"

definition pdf_blob :: blob where
  "pdf_blob = \<lparr>blob_bytes = [0x25, 0x50, 0x44, 0x46, 0x2D], blob_type = ''application/pdf''\<rparr>"

definition not_found_payload :: jsval where
  "not_found_payload =
     JObj [(''success'', JBool False),
           (''error'', JStr ''File not found: missing.docx''),
           (''error_type'', JStr ''PathNotFound''),
           (''file_path'', JStr ''missing.docx'')]"

definition not_found_rejection :: jsval where
  "not_found_rejection = JErr ''Error'' (json_serialize not_found_payload) []"

definition example_platform :: platform where
  "example_platform =
     \<lparr>json_parse = (\<lambda>s. if s = json_serialize not_found_payload then Some not_found_payload else None),
      url_id = ''https://lab.example/0b6f''\<rparr>"
definition rendered_example :: widget where
  "rendered_example =
     step example_platform (RequestSettles (Fulfilled pdf_response)) (new_widget example_context)"

definition injected_payload :: jsval where
  "injected_payload =
     JObj [(''success'', JBool False),
           (''error'', JStr ''Conversion failed''),
           (''error_type'', JStr ''ConversionFailure''),
           (''file_path'', JStr ''<img src=x onerror=alert(1)>.docx'')]"

definition server_error :: jsval where
  "server_error = JErr ''Error'' ''Internal Server Error'' []"

definition empty_array_error :: jsval where
  "empty_array_error = JObj [(''success'', JBool False), (''error'', JArr [])]"

definition unconvertible_type :: jsval where
  "unconvertible_type =
     JObj [(''success'', JBool False), (''error'', JStr ''x''),
           (''error_type'', JObj [(''toString'', JNum ''0'')])]"




section \<open>The document model\<close>

text \<open>
  \<open>DocModel\<close>: four constant fields, two signals, and methods that do nothing. A
  signal is modelled by the list of what it has emitted.
\<close>

record signal =
  emitted :: "jsval list"

record doc_model =
  defaultKernelName :: string
  defaultKernelLanguage :: string
  collaborative :: bool
  contentChanged :: signal
  stateChanged :: signal
  sharedModel :: jsval

definition new_DocModel :: doc_model where
  "new_DocModel =
     \<lparr>defaultKernelName = [],
      defaultKernelLanguage = [],
      collaborative = False,
      contentChanged = \<lparr>emitted = []\<rparr>,
      stateChanged = \<lparr>emitted = []\<rparr>,
      sharedModel = JNull\<rparr>"

definition DocModel_dirty :: "doc_model \<Rightarrow> bool" where
  "DocModel_dirty m = False"

definition DocModel_readOnly :: "doc_model \<Rightarrow> bool" where
  "DocModel_readOnly m = True"

definition DocModel_toString :: "doc_model \<Rightarrow> string" where
  "DocModel_toString m = []"

definition DocModel_fromString :: "string \<Rightarrow> doc_model \<Rightarrow> doc_model" where
  "DocModel_fromString v m = m"

definition DocModel_toJSON :: "doc_model \<Rightarrow> jsval" where
  "DocModel_toJSON m = JObj []"

definition DocModel_fromJSON :: "jsval \<Rightarrow> doc_model \<Rightarrow> doc_model" where
  "DocModel_fromJSON v m = m"

definition DocModel_initialize :: "doc_model \<Rightarrow> doc_model" where
  "DocModel_initialize m = m"

definition DocModel_dispose :: "doc_model \<Rightarrow> doc_model" where
  "DocModel_dispose m = m"

definition DocModel_isDisposed :: "doc_model \<Rightarrow> bool" where
  "DocModel_isDisposed m = False"

text \<open>The calls a holder of the model can make on it, and a sequence of them.\<close>

datatype model_call =
    FromString string
  | FromJSON jsval
  | Initialize
  | Dispose
  | ToString
  | ToJSON

fun model_step :: "model_call \<Rightarrow> doc_model \<Rightarrow> doc_model" where
  "model_step (FromString v) m = DocModel_fromString v m"
| "model_step (FromJSON v) m = DocModel_fromJSON v m"
| "model_step Initialize m = DocModel_initialize m"
| "model_step Dispose m = DocModel_dispose m"
| "model_step ToString m = m"
| "model_step ToJSON m = m"

definition model_run :: "model_call list \<Rightarrow> doc_model \<Rightarrow> doc_model" where
  "model_run calls m = fold model_step calls m"

section \<open>Plugin activation\<close>

record file_type_entry =
  ft_name :: string
  ft_displayName :: string
  ft_extensions :: "string list"
  ft_mimeTypes :: "string list"
  ft_contentType :: string
  ft_fileFormat :: string

definition FILE_TYPES :: "file_type_entry list" where
  "FILE_TYPES =
     [\<lparr>ft_name = ''docx'',
       ft_displayName = ''Word Document (DOCX)'',
       ft_extensions = [''.docx''],
       ft_mimeTypes = [''application/vnd.openxmlformats-officedocument.wordprocessingml.document''],
       ft_contentType = ''file'',
       ft_fileFormat = ''base64''\<rparr>,
      \<lparr>ft_name = ''doc'',
       ft_displayName = ''Word Document (DOC)'',
       ft_extensions = [''.doc''],
       ft_mimeTypes = [''application/msword''],
       ft_contentType = ''file'',
       ft_fileFormat = ''base64''\<rparr>,
      \<lparr>ft_name = ''rtf'',
       ft_displayName = ''Rich Text Format'',
       ft_extensions = [''.rtf''],
       ft_mimeTypes = [''application/rtf'', ''text/rtf''],
       ft_contentType = ''file'',
       ft_fileFormat = ''base64''\<rparr>]"

text \<open>The object handed to \<open>docRegistry.addFileType\<close>, and the options of the factory.\<close>

record file_type_options =
  name :: string
  displayName :: string
  extensions :: "string list"
  mimeTypes :: "string list"

record factory_options =
  factory_name :: string
  modelName :: string
  fileTypes :: "string list"
  defaultFor :: "string list"
  readOnly :: bool

text \<open>
  The host's document registry, as far as activation touches it: the file types and
  the widget factories added so far. Whether \<open>addFileType\<close> throws is the host's
  decision (\<open>refuses\<close>); activation catches it.
\<close>

record doc_registry =
  registered_fileTypes :: "file_type_options list"
  registered_factories :: "factory_options list"

record app =
  docRegistry :: doc_registry
  console :: "string list"

definition addFileType ::
  "(doc_registry \<Rightarrow> file_type_options \<Rightarrow> bool) \<Rightarrow> file_type_options \<Rightarrow> doc_registry \<Rightarrow> string + doc_registry" where
  "addFileType refuses ft reg =
     (if refuses reg ft then Inl (''duplicate file type '' @ name ft)
      else Inr (reg\<lparr>registered_fileTypes := registered_fileTypes reg @ [ft]\<rparr>))"

definition addWidgetFactory :: "factory_options \<Rightarrow> doc_registry \<Rightarrow> doc_registry" where
  "addWidgetFactory f reg = reg\<lparr>registered_factories := registered_factories reg @ [f]\<rparr>"

definition console_log :: "string \<Rightarrow> app \<Rightarrow> app" where
  "console_log msg a = a\<lparr>console := console a @ [msg]\<rparr>"

text \<open>The body of \<open>FILE_TYPES.forEach\<close>, with its \<open>try\<close> and \<open>catch\<close>.\<close>

definition options_of :: "file_type_entry \<Rightarrow> file_type_options" where
  "options_of fileType =
     \<lparr>name = ft_name fileType,
      displayName = ft_displayName fileType,
      extensions = ft_extensions fileType,
      mimeTypes = ft_mimeTypes fileType\<rparr>"

definition register_fileType ::
  "(doc_registry \<Rightarrow> file_type_options \<Rightarrow> bool) \<Rightarrow> file_type_entry \<Rightarrow> app \<Rightarrow> app" where
  "register_fileType refuses fileType a =
     (case addFileType refuses (options_of fileType) (docRegistry a) of
        Inr reg \<Rightarrow> console_log (''Registered file type: '' @ ft_name fileType) (a\<lparr>docRegistry := reg\<rparr>)
      | Inl e \<Rightarrow> console_log (''File type '' @ ft_name fileType @ '' already registered'') a)"

definition document_reader_factory :: factory_options where
  "document_reader_factory =
     \<lparr>factory_name = ''Document Reader'',
      modelName = ''base64'',
      fileTypes = map ft_name FILE_TYPES,
      defaultFor = map ft_name FILE_TYPES,
      readOnly = True\<rparr>"

definition activate :: "(doc_registry \<Rightarrow> file_type_options \<Rightarrow> bool) \<Rightarrow> app \<Rightarrow> app" where
  "activate refuses a =
     (let a1 = console_log ''JupyterLab extension jupyterlab_doc_reader_extension is activated!'' a;
          a2 = fold (register_fileType refuses) FILE_TYPES a1;
          a3 = a2\<lparr>docRegistry := addWidgetFactory document_reader_factory (docRegistry a2)\<rparr>
      in console_log (''Document reader widget factory registered for: ''
                        @ join '', '' (map ft_name FILE_TYPES)) a3)"

section \<open>Properties\<close>

subsection \<open>Base64: decoding what the encoder wrote\<close>

lemma index_of_nth: "distinct xs \<Longrightarrow> i < length xs \<Longrightarrow> index_of (xs ! i) xs = Some i"
proof (induction xs arbitrary: i)
  case Nil
  then show ?case by simp
next
  case (Cons y ys)
  show ?case
  proof (cases i)
    case 0
    then show ?thesis by simp
  next
    case (Suc j)
    with Cons.prems have "j < length ys" "ys ! j \<noteq> y" "distinct ys" by auto
    with Cons.IH[of j] Suc show ?thesis by simp
  qed
qed

lemma b64_alphabet_distinct: "distinct b64_alphabet"
  by (simp add: b64_alphabet_def)

lemma b64_alphabet_length: "length b64_alphabet = 64"
  by (simp add: b64_alphabet_def)

lemma index_b64_char: "i < 64 \<Longrightarrow> index_of (b64_char i) b64_alphabet = Some i"
  unfolding b64_char_def
  using index_of_nth[OF b64_alphabet_distinct, of i] by (simp add: b64_alphabet_length)

lemma b64_char_not_pad: "b64_char i \<noteq> CHR ''=''"
proof -
  have "i mod 64 < length b64_alphabet" by (simp add: b64_alphabet_length)
  then have "b64_char i \<in> set b64_alphabet" unfolding b64_char_def by (rule nth_mem)
  moreover have "CHR ''='' \<notin> set b64_alphabet" by (simp add: b64_alphabet_def)
  ultimately show ?thesis by metis
qed

lemma b64_char_not_space: "\<not> is_ascii_whitespace (b64_char i)"
proof -
  have "i mod 64 < length b64_alphabet" by (simp add: b64_alphabet_length)
  then have "b64_char i \<in> set b64_alphabet" unfolding b64_char_def by (rule nth_mem)
  moreover have "\<forall>c \<in> set b64_alphabet. \<not> is_ascii_whitespace c"
    by (simp add: b64_alphabet_def is_ascii_whitespace_def)
  ultimately show ?thesis by blast
qed


lemma pad_count_step: "pad_count (a # b # c # rest) = pad_count rest"
  by (simp add: pad_count_def)

lemma encode_split:
  "b64encode_nat ns = map b64_char (sextets ns) @ replicate (pad_count ns) CHR ''=''"
proof (induction ns rule: b64encode_nat.induct)
  case 1
  show ?case by (simp add: pad_count_def)
next
  case (2 a)
  show ?case by (simp add: pad_count_def numeral_2_eq_2)
next
  case (3 a b)
  show ?case by (simp add: pad_count_def)
next
  case (4 a b c rest)
  then show ?case by (simp add: pad_count_step)
qed

lemma sextets_bound:
  "\<forall>n \<in> set ns. n < 256 \<Longrightarrow> \<forall>i \<in> set (sextets ns). i < 64"
proof (induction ns rule: sextets.induct)
  case 1
  show ?case by simp
next
  case (2 a)
  then have "a < 256" by simp
  then show ?case by auto
next
  case (3 a b)
  then have "a < 256" "b < 256" by simp_all
  then show ?case by auto
next
  case (4 a b c rest)
  then have "a < 256" "b < 256" "c < 256" "\<forall>n \<in> set rest. n < 256" by simp_all
  with 4 show ?case by auto
qed

lemma sextets_length_mod:
  "(length (sextets ns) + pad_count ns) mod 4 = 0 \<and> length (sextets ns) mod 4 \<noteq> 1
   \<and> pad_count ns \<le> 2"
proof (induction ns rule: sextets.induct)
  case 1
  show ?case by (simp add: pad_count_def)
next
  case (2 a)
  show ?case by (simp add: pad_count_def)
next
  case (3 a b)
  show ?case by (simp add: pad_count_def)
next
  case (4 a b c rest)
  then show ?case by (simp add: pad_count_step)
qed

lemma split4: "(a::nat) * 16 = (a div 4) * 64 + (a mod 4) * 16"
proof -
  define q r where "q = a div 4" and "r = a mod 4"
  have "a = q * 4 + r" by (simp add: q_def r_def)
  then have "a * 16 = q * 64 + r * 16" by arith
  then show ?thesis by (simp only: q_def r_def)
qed

lemma split16: "(b::nat) * 4 = (b div 16) * 64 + (b mod 16) * 4"
proof -
  define q r where "q = b div 16" and "r = b mod 16"
  have "b = q * 16 + r" by (simp add: q_def r_def)
  then have "b * 4 = q * 64 + r * 4" by arith
  then show ?thesis by (simp only: q_def r_def)
qed

lemma split64: "(c::nat) = (c div 64) * 64 + c mod 64"
  by simp

lemma sextet_pair: "((a::nat) div 4) * 64 + ((a mod 4) * 16 + b div 16) = a * 16 + b div 16"
  using split4[of a] by simp

lemma sextet_triple: "((a::nat) * 16 + b div 16) * 64 + ((b mod 16) * 4 + c div 64) = a * 1024 + b * 4 + c div 64"
  using split16[of b] by (simp add: add_mult_distrib)

lemma sextet_quad: "((a::nat) * 1024 + b * 4 + c div 64) * 64 + c mod 64 = a * 65536 + b * 256 + c"
  using split64[of c] by (simp add: add_mult_distrib)

lemma one_byte: "(((a::nat) div 4) * 64 + (a mod 4) * 16) div 16 = a"
  using split4[of a] by simp

lemma two_bytes: "((((a::nat) div 4) * 64 + ((a mod 4) * 16 + b div 16)) * 64 + (b mod 16) * 4) div 4 = a * 256 + b"
proof -
  have "(((a div 4) * 64 + ((a mod 4) * 16 + b div 16)) * 64 + (b mod 16) * 4) = (a * 16 + b div 16) * 64 + (b mod 16) * 4"
    by (simp only: sextet_pair)
  also have "\<dots> = a * 1024 + b * 4" using split16[of b] by (simp add: add_mult_distrib)
  also have "\<dots> = (a * 256 + b) * 4" by simp
  finally show ?thesis by simp
qed

lemma byte_hi: "b < 256 \<Longrightarrow> c < 256 \<Longrightarrow> ((a::nat) * 65536 + b * 256 + c) div 65536 = a"
  by simp

lemma byte_mid_div: "c < 256 \<Longrightarrow> ((a::nat) * 65536 + b * 256 + c) div 256 = a * 256 + b"
  by simp

lemma low_byte: "b < 256 \<Longrightarrow> ((a::nat) * 256 + b) mod 256 = b"
  by simp

lemma byte_lo: "c < 256 \<Longrightarrow> ((a::nat) * 65536 + b * 256 + c) mod 256 = c"
proof -
  assume c: "c < 256"
  have "a * 65536 + b * 256 + c = (a * 256 + b) * 256 + c" by simp
  then show ?thesis using c by (metis mod_mult_self3 mod_less)
qed


lemma decode_sextets_sextets:
  "\<forall>n \<in> set ns. n < 256 \<Longrightarrow> decode_sextets (sextets ns) = ns"
proof (induction ns rule: sextets.induct)
  case 1
  show ?case by simp
next
  case (2 a)
  then have a: "a < 256" by simp
  show ?case using a by (simp add: one_byte)
next
  case (3 a b)
  then have ab: "a < 256" "b < 256" by simp_all
  show ?case
    unfolding sextets.simps decode_sextets.simps two_bytes Let_def using ab by simp
next
  case (4 a b c rest)
  then have abc: "a < 256" "b < 256" "c < 256" and r: "\<forall>n \<in> set rest. n < 256" by simp_all
  have ih: "decode_sextets (sextets rest) = rest" using 4 r by simp
  have n: "(((a div 4) * 64 + ((a mod 4) * 16 + b div 16)) * 64 + ((b mod 16) * 4 + c div 64)) * 64
           + c mod 64 = a * 65536 + b * 256 + c"
    by (simp only: sextet_pair sextet_triple sextet_quad)
  have c1: "(a * 65536 + b * 256 + c) div 65536 mod 256 = a"
    using abc by (simp add: byte_hi)
  have c2: "(a * 65536 + b * 256 + c) div 256 mod 256 = b"
    using abc by (simp add: byte_mid_div low_byte)
  have c3: "(a * 65536 + b * 256 + c) mod 256 = c"
    using abc by (simp add: byte_lo)
  have "decode_sextets (sextets (a # b # c # rest)) =
          [(a * 65536 + b * 256 + c) div 65536 mod 256,
           (a * 65536 + b * 256 + c) div 256 mod 256,
           (a * 65536 + b * 256 + c) mod 256] @ decode_sextets (sextets rest)"
    by (simp only: sextets.simps append_Cons append_Nil decode_sextets.simps Let_def n)
  then show ?case by (simp only: c1 c2 c3 ih append_Cons append_Nil)
qed

lemma strip_padding_encoded:
  assumes "\<forall>c \<in> set xs. c \<noteq> CHR ''=''" and "p \<le> 2" and "(length xs + p) mod 4 = 0"
  shows "strip_padding (xs @ replicate p CHR ''='') = xs"
proof -
  consider "p = 0" | "p = 1" | "p = 2" using assms(2) by linarith
  then show ?thesis
  proof cases
    case 1
    show ?thesis
    proof (cases "rev xs")
      case Nil
      then show ?thesis using 1 by (simp add: strip_padding_def)
    next
      case (Cons c1 r)
      then have "c1 \<in> set xs" by (metis list.set_intros(1) set_rev)
      then have "c1 \<noteq> CHR ''=''" using assms(1) by blast
      then show ?thesis using 1 Cons by (simp add: strip_padding_def split: list.splits)
    qed
  next
    case 2
    show ?thesis
    proof (cases "rev xs")
      case Nil
      then show ?thesis using 2 assms(3) by simp
    next
      case (Cons c2 r)
      then have "c2 \<in> set xs" by (metis list.set_intros(1) set_rev)
      then have "c2 \<noteq> CHR ''=''" using assms(1) by blast
      moreover have "xs = rev (c2 # r)" using Cons by (metis rev_rev_ident)
      ultimately show ?thesis using 2 Cons assms(3) by (simp add: strip_padding_def)
    qed
  next
    case 3
    have "rev (xs @ replicate p CHR ''='') = CHR ''='' # CHR ''='' # rev xs"
      using 3 by (simp add: numeral_2_eq_2)
    then show ?thesis using 3 assms(3) by (simp add: strip_padding_def)
  qed
qed

lemma atob_b64encode_nat:
  assumes "\<forall>n \<in> set ns. n < 256"
  shows "atob (b64encode_nat ns) = Some (map char_of ns)"
proof -
  let ?body = "map b64_char (sextets ns)"
  have enc: "b64encode_nat ns = ?body @ replicate (pad_count ns) CHR ''=''"
    by (rule encode_split)
  have "\<not> is_ascii_whitespace CHR ''=''"
    by (simp add: is_ascii_whitespace_def)
  then have "\<forall>c \<in> set (b64encode_nat ns). \<not> is_ascii_whitespace c"
    unfolding enc by (auto simp: b64_char_not_space)
  then have nows: "filter (\<lambda>c. \<not> is_ascii_whitespace c) (b64encode_nat ns) = b64encode_nat ns"
    by (simp only: filter_True)
  have nopad: "\<forall>c \<in> set ?body. c \<noteq> CHR ''=''"
    by (auto simp: b64_char_not_pad)
  have len: "(length ?body + pad_count ns) mod 4 = 0" "length ?body mod 4 \<noteq> 1" "pad_count ns \<le> 2"
    using sextets_length_mod[of ns] by simp_all
  have strip: "strip_padding (b64encode_nat ns) = ?body"
    unfolding enc using nopad len(3) len(1) by (rule strip_padding_encoded)
  have bound: "\<forall>i \<in> set (sextets ns). i < 64"
    using assms by (rule sextets_bound)
  have alpha: "\<not> list_ex (\<lambda>c. index_of c b64_alphabet = None) ?body"
    using bound by (auto simp: list_ex_iff index_b64_char)
  have idx: "map (\<lambda>c. the (index_of c b64_alphabet)) ?body = sextets ns"
    using bound by (simp add: index_b64_char map_idI)
  show ?thesis
    unfolding atob_def nows strip Let_def
    using len(2) alpha by (simp only: idx decode_sextets_sextets[OF assms] if_False)
qed

lemma atob_b64encode: "atob (b64encode bs) = Some (map (\<lambda>b. char_of (unat b)) bs)"
proof -
  have "\<forall>n \<in> set (map unat bs). n < 256"
  proof
    fix n assume "n \<in> set (map unat bs)"
    then obtain b :: byte where "n = unat b" by auto
    then show "n < 256" using unsigned_less[of b] by simp
  qed
  then have "atob (b64encode_nat (map unat bs)) = Some (map char_of (map unat bs))"
    by (rule atob_b64encode_nat)
  then show ?thesis by (simp add: b64encode_def comp_def)
qed

lemma charCode_loop_spec:
  "i \<le> length s \<Longrightarrow> length arr = length s \<Longrightarrow>
   charCode_loop s i arr = take i arr @ map of_char (drop i s)"
proof (induction s i arr rule: charCode_loop.induct)
  case (1 s i arr)
  show ?case
  proof (cases "i < length s")
    case True
    let ?arr = "arr[i := of_char (s ! i)]"
    have "charCode_loop s i arr = charCode_loop s (Suc i) ?arr"
      using True by simp
    also have "\<dots> = take (Suc i) ?arr @ map of_char (drop (Suc i) s)"
      using True 1 by simp
    also have "take (Suc i) ?arr = take i arr @ [of_char (s ! i)]"
      using True 1(3) by (simp add: take_Suc_conv_app_nth)
    finally show ?thesis
      using True by (simp add: Cons_nth_drop_Suc[symmetric])
  next
    case False
    with 1 show ?thesis by simp
  qed
qed

lemma charCode_loop_all:
  "charCode_loop s 0 (new_Array (length s)) = map of_char s"
  using charCode_loop_spec[of 0 s "new_Array (length s)"] by (simp add: new_Array_def)

lemma byte_char_round: "(of_nat (of_char (char_of (unat (b::byte))) :: nat) :: byte) = b"
proof -
  have "unat b < 256" using unsigned_less[of b] by simp
  then have "(of_char (char_of (unat b)) :: nat) = unat b" by simp
  then show ?thesis by simp
qed


text \<open>
  C4. Round trip: for every byte sequence, encoding it to base64 and decoding the
  string with \<open>_base64ToBlob\<close> gives a blob whose content is the original sequence
  (and whose type is the one asked for), so its size is the original byte count.
\<close>

theorem base64ToBlob_round_trip:
  "base64ToBlob (JStr (b64encode bs)) contentType
     = Inr \<lparr>blob_bytes = bs, blob_type = contentType\<rparr>
   \<and> map_sum id blob_size (base64ToBlob (JStr (b64encode bs)) contentType) = Inr (length bs)"
proof -
  let ?chars = "map (\<lambda>b. char_of (unat b)) bs"
  have "Uint8Array (charCode_loop ?chars 0 (new_Array (length ?chars))) = bs"
    unfolding charCode_loop_all Uint8Array_def
    by (simp only: map_map comp_def byte_char_round map_ident id_apply)
  then have "base64ToBlob (JStr (b64encode bs)) contentType
               = Inr \<lparr>blob_bytes = bs, blob_type = contentType\<rparr>"
    by (simp add: base64ToBlob_def atob_b64encode Let_def)
  then show ?thesis by (simp add: blob_size_def)
qed

subsection \<open>The widget\<close>

lemma catch_apiError_throws_original: "catch_apiError pf apiError = Inl apiError"
  by (simp add: catch_apiError_def try_catch_def parse_and_throw_def split: option.splits)

lemma await_response_cases:
  "await_response pf (Fulfilled response) = Inr response"
  "await_response pf (RejectedWith apiError) = Inl apiError"
  by (simp_all add: await_response_def catch_apiError_throws_original)

lemma load_try_rejected: "load_try pf (RejectedWith apiError) w = Inl apiError"
  by (simp add: load_try_def await_response_cases)

lemma load_try_fulfilled: "load_try pf (Fulfilled response) w = process_response pf response w"
  by (simp add: load_try_def await_response_cases)

lemma process_response_Inr:
  "process_response pf response w = Inr w' \<Longrightarrow>
     \<exists>url b. w' = w\<lparr>created_urls := created_urls w @ [(url, b)],
                     iframe_srcdoc := [],
                     iframe_display := ''none'',
                     node_children := [Embed url ''application/pdf''],
                     ready := resolve (ready w)\<rparr>"
  by (auto simp: process_response_def Let_def split: if_splits sum.splits)

lemma load_try_Inr:
  "load_try pf out w = Inr w' \<Longrightarrow>
     \<exists>url b. w' = w\<lparr>created_urls := created_urls w @ [(url, b)],
                     iframe_srcdoc := [],
                     iframe_display := ''none'',
                     node_children := [Embed url ''application/pdf''],
                     ready := resolve (ready w)\<rparr>"
  by (cases out) (auto simp: load_try_rejected load_try_fulfilled dest: process_response_Inr)

lemma showError_cases:
  "(\<exists>html. error_panel error = Some html
      \<and> showError error w
          = (w\<lparr>iframe_display := ''none'', errorDiv_display := ''block'',
               errorDiv_innerHTML := html\<rparr>, None))
   \<or> (error_panel error = None
      \<and> showError error w
          = (w\<lparr>iframe_display := ''none'', errorDiv_display := ''block''\<rparr>,
             Some conversion_error))"
  by (cases "error_panel error") (simp_all add: showError_def Let_def)

text \<open>The three ways the rest of the load ends.\<close>

lemma resume_shape:
  "(\<exists>url b. load_try pf out w
         = Inr (w\<lparr>created_urls := created_urls w @ [(url, b)],
                  iframe_srcdoc := [],
                  iframe_display := ''none'',
                  node_children := [Embed url ''application/pdf''],
                  ready := resolve (ready w)\<rparr>)
       \<and> loadDocument_resume pf out w
         = w\<lparr>created_urls := created_urls w @ [(url, b)],
             iframe_srcdoc := [],
             iframe_display := ''none'',
             node_children := [Embed url ''application/pdf''],
             ready := resolve (ready w),
             loadDocument_promise := resolve (loadDocument_promise w)\<rparr>)
   \<or> (\<exists>e html. load_try pf out w = Inl e \<and> error_panel e = Some html
       \<and> loadDocument_resume pf out w
         = w\<lparr>iframe_display := ''none'', errorDiv_display := ''block'',
             errorDiv_innerHTML := html,
             ready := reject e (ready w),
             loadDocument_promise := resolve (loadDocument_promise w)\<rparr>)
   \<or> (\<exists>e. load_try pf out w = Inl e \<and> error_panel e = None
       \<and> loadDocument_resume pf out w
         = w\<lparr>iframe_display := ''none'', errorDiv_display := ''block'',
             loadDocument_promise := reject conversion_error (loadDocument_promise w)\<rparr>)"
proof (cases "load_try pf out w")
  case (Inr w')
  from load_try_Inr[OF Inr] obtain url b where
    w': "w' = w\<lparr>created_urls := created_urls w @ [(url, b)],
                  iframe_srcdoc := [],
                  iframe_display := ''none'',
                  node_children := [Embed url ''application/pdf''],
                  ready := resolve (ready w)\<rparr>"
    by blast
  show ?thesis
    apply (rule disjI1)
    apply (rule exI[of _ url])
    apply (rule exI[of _ b])
    using Inr w' by (simp add: loadDocument_resume_def)
next
  case (Inl e)
  then show ?thesis
    using showError_cases[of e w] by (auto simp: loadDocument_resume_def)
qed

lemma resume_frame:
  "iframe_src (loadDocument_resume pf out w) = iframe_src w"
  "requests (loadDocument_resume pf out w) = requests w"
  "revoked_urls (loadDocument_resume pf out w) = revoked_urls w"
  "isDisposed (loadDocument_resume pf out w) = isDisposed w"
  "awaiting (loadDocument_resume pf out w) = awaiting w"
  using resume_shape[of pf out w] by auto

lemma resume_settled:
  "ready w \<noteq> Pending \<Longrightarrow> ready (loadDocument_resume pf out w) = ready w"
  using resume_shape[of pf out w] by (auto simp: resolve_def reject_def)

lemma dispose_frame:
  "requests (dispose w) = requests w"
  "ready (dispose w) = ready w"
  "iframe_src (dispose w) = iframe_src w"
  "awaiting (dispose w) = awaiting w"
  "created_urls (dispose w) = created_urls w"
  by (simp_all add: dispose_def super_dispose_def revokeObjectURL_def)

lemma step_requests: "requests (step pf ev w) = requests w"
  by (cases ev) (simp_all add: resume_frame dispose_frame)

lemma step_iframe_src: "iframe_src (step pf ev w) = iframe_src w"
  by (cases ev) (simp_all add: resume_frame dispose_frame)

lemma step_settled: "ready w \<noteq> Pending \<Longrightarrow> ready (step pf ev w) = ready w"
  by (cases ev) (simp_all add: resume_settled dispose_frame)

lemma run_requests: "requests (run pf evs w) = requests w"
  by (induction evs arbitrary: w) (simp_all add: step_requests)

lemma run_iframe_src: "iframe_src (run pf evs w) = iframe_src w"
  by (induction evs arbitrary: w) (simp_all add: step_iframe_src)

lemma new_widget_requests: "requests (new_widget c) = [convert_request (path c)]"
  by (simp add: new_widget_def loadDocument_begin_def)

lemma new_widget_pending:
  "ready (new_widget c) = Pending" "loadDocument_promise (new_widget c) = Pending"
  by (simp_all add: new_widget_def loadDocument_begin_def)

lemma viewer_state_Loading: "viewer_state_of w = Loading \<longleftrightarrow> ready w = Pending"
  by (simp add: viewer_state_of_def split: promise_state.splits)

text \<open>
  C6. Each widget makes exactly one conversion attempt: whatever happens to it after the
  constructor, the requests it has sent are the one request of the constructor, and a
  widget that has left Loading (Rendered or Failed) stays in the state it is in, under
  every event and every sequence of events.
\<close>

theorem one_conversion_attempt:
  "requests (run pf evs (new_widget c)) = [convert_request (path c)]
   \<and> (viewer_state_of w \<noteq> Loading \<longrightarrow> viewer_state_of (step pf ev w) = viewer_state_of w)
   \<and> (viewer_state_of w \<noteq> Loading \<longrightarrow> viewer_state_of (run pf evs w) = viewer_state_of w)"
proof (intro conjI impI)
  show "requests (run pf evs (new_widget c)) = [convert_request (path c)]"
    by (simp add: run_requests new_widget_requests)
next
  assume "viewer_state_of w \<noteq> Loading"
  then have "ready w \<noteq> Pending" by (simp add: viewer_state_Loading)
  then show "viewer_state_of (step pf ev w) = viewer_state_of w"
    by (simp add: viewer_state_of_def step_settled)
next
  assume "viewer_state_of w \<noteq> Loading"
  then have "ready w \<noteq> Pending" by (simp add: viewer_state_Loading)
  then have "ready (run pf evs w) = ready w"
    by (induction evs arbitrary: w) (simp_all add: step_settled)
  then show "viewer_state_of (run pf evs w) = viewer_state_of w"
    by (simp add: viewer_state_of_def)
qed

lemma dispose_src_empty: "iframe_src w = [] \<Longrightarrow> dispose w = (if isDisposed w then w else super_dispose w)"
  by (simp add: dispose_def startsWith_def)

lemma new_widget_inv: "widget_inv (new_widget c)"
  by (simp add: widget_inv_def new_widget_def loadDocument_begin_def)

lemma step_inv: "widget_inv w \<Longrightarrow> widget_inv (step pf ev w)"
proof (cases ev)
  case DisposeCalled
  assume "widget_inv w"
  then show ?thesis using DisposeCalled
    by (auto simp: widget_inv_def dispose_src_empty super_dispose_def split: if_splits)
next
  case (RequestSettles out)
  assume inv: "widget_inv w"
  show ?thesis
  proof (cases "awaiting w")
    case False
    with inv RequestSettles show ?thesis by simp
  next
    case True
    let ?w = "w\<lparr>awaiting := False\<rparr>"
    from inv True have p: "ready ?w = Pending" "created_urls ?w = []" "iframe_src ?w = []"
      "revoked_urls ?w = []" "awaiting ?w = False"
      by (simp_all add: widget_inv_def)
    have "widget_inv (loadDocument_resume pf out ?w)"
      using resume_shape[of pf out ?w] p
      by (auto simp: widget_inv_def resolve_def reject_def)
    with True RequestSettles show ?thesis by simp
  qed
qed

lemma run_inv: "widget_inv w \<Longrightarrow> widget_inv (run pf evs w)"
  by (induction evs arbitrary: w) (simp_all add: step_inv)

lemma reachable_inv: "widget_inv (run pf evs (new_widget c))"
  by (rule run_inv[OF new_widget_inv])

lemma never_revokes: "revoked_urls (run pf evs (new_widget c)) = []"
  using reachable_inv[of pf evs c] by (simp add: widget_inv_def)

lemma dispose_twice: "dispose (dispose w) = dispose w"
  by (simp add: dispose_def super_dispose_def revokeObjectURL_def)

lemma dispose_disposed: "isDisposed w \<Longrightarrow> dispose w = w"
  by (simp add: dispose_def)

text \<open>
  C7. \<open>dispose\<close> is idempotent; on a disposed widget it returns at the guard and
  changes nothing; and a widget that is not Rendered (Loading or Failed) has created no
  object URL, \<open>dispose\<close> revokes nothing on it and only sets the disposed flag.
  \<open>dispose\<close> has no statement that throws: it is a total function of the widget.
\<close>

theorem dispose_idempotent_no_handle:
  "dispose (dispose w) = dispose w
   \<and> (isDisposed w \<longrightarrow> dispose w = w)
   \<and> (viewer_state_of (run pf evs (new_widget c)) \<noteq> Rendered \<longrightarrow>
        created_urls (run pf evs (new_widget c)) = []
        \<and> revoked_urls (dispose (run pf evs (new_widget c))) = []
        \<and> dispose (run pf evs (new_widget c)) = (run pf evs (new_widget c))\<lparr>isDisposed := True\<rparr>)"
proof (intro conjI impI)
  show "dispose (dispose w) = dispose w" by (rule dispose_twice)
next
  assume "isDisposed w" then show "dispose w = w" by (rule dispose_disposed)
next
  let ?w = "run pf evs (new_widget c)"
  assume "viewer_state_of ?w \<noteq> Rendered"
  then have "ready ?w \<noteq> Resolved" by (auto simp: viewer_state_of_def)
  then show "created_urls ?w = []"
    using reachable_inv[of pf evs c] by (auto simp: widget_inv_def split: if_splits)
next
  let ?w = "run pf evs (new_widget c)"
  have src: "iframe_src ?w = []" using reachable_inv[of pf evs c] by (simp add: widget_inv_def)
  have "revoked_urls ?w = []" by (rule never_revokes)
  then show "revoked_urls (dispose ?w) = []"
    using src by (simp add: dispose_src_empty super_dispose_def)
next
  let ?w = "run pf evs (new_widget c)"
  have src: "iframe_src ?w = []" using reachable_inv[of pf evs c] by (simp add: widget_inv_def)
  show "dispose ?w = ?w\<lparr>isDisposed := True\<rparr>"
    using src by (cases "isDisposed ?w") (simp_all add: dispose_src_empty super_dispose_def)
qed

lemma atob_pdf: "atob ''JVBERi0='' = Some ''%PDF-''"
  by (simp add: atob_def strip_padding_def is_ascii_whitespace_def b64_alphabet_def Let_def
        char_of_def bit_Suc_0_iff)

lemma base64ToBlob_pdf: "base64ToBlob (JStr ''JVBERi0='') ''application/pdf'' = Inr pdf_blob"
proof -
  have "Uint8Array (charCode_loop ''%PDF-'' 0 (new_Array (length ''%PDF-''))) = blob_bytes pdf_blob"
    unfolding charCode_loop_all by (simp add: Uint8Array_def pdf_blob_def)
  then show ?thesis
    by (simp add: base64ToBlob_def atob_pdf Let_def pdf_blob_def)
qed

lemma process_pdf_response:
  "process_response example_platform pdf_response w
     = Inr (w\<lparr>created_urls := created_urls w @ [(''blob:https://lab.example/0b6f'', pdf_blob)],
              iframe_srcdoc := [],
              iframe_display := ''none'',
              node_children := [Embed ''blob:https://lab.example/0b6f'' ''application/pdf''],
              ready := resolve (ready w)\<rparr>)"
  by (simp add: process_response_def pdf_response_def base64ToBlob_pdf createObjectURL_def
        example_platform_def Let_def)

lemma rendered_example_eq:
  "rendered_example =
     (new_widget example_context)
       \<lparr>awaiting := False,
        created_urls := [(''blob:https://lab.example/0b6f'', pdf_blob)],
        iframe_srcdoc := [],
        iframe_display := ''none'',
        node_children := [Embed ''blob:https://lab.example/0b6f'' ''application/pdf''],
        ready := Resolved,
        loadDocument_promise := Resolved\<rparr>"
  by (simp add: rendered_example_def loadDocument_resume_def load_try_fulfilled
        process_pdf_response new_widget_def loadDocument_begin_def resolve_def)

lemma rendered_example_state: "viewer_state_of rendered_example = Rendered"
  by (simp add: rendered_example_eq viewer_state_of_def)

text \<open>
  C2 fails on the code. In scenario A the widget is Rendered and owns an object URL,
  which is the \<open>src\<close> of the embed element; \<open>dispose\<close> tests the \<open>src\<close> of the
  iframe, which is empty, and revokes nothing. No widget ever revokes a URL, whatever
  happens to it.
\<close>

theorem dispose_leaves_object_url:
  "viewer_state_of rendered_example = Rendered
   \<and> created_urls rendered_example = [(''blob:https://lab.example/0b6f'', pdf_blob)]
   \<and> node_children rendered_example = [Embed ''blob:https://lab.example/0b6f'' ''application/pdf'']
   \<and> iframe_src rendered_example = []
   \<and> isDisposed (dispose rendered_example)
   \<and> revoked_urls (dispose rendered_example) = []
   \<and> revoked_urls (run pf evs (new_widget c)) = []"
proof -
  have "viewer_state_of rendered_example = Rendered
   \<and> created_urls rendered_example = [(''blob:https://lab.example/0b6f'', pdf_blob)]
   \<and> node_children rendered_example = [Embed ''blob:https://lab.example/0b6f'' ''application/pdf'']
   \<and> iframe_src rendered_example = []
   \<and> isDisposed (dispose rendered_example)
   \<and> revoked_urls (dispose rendered_example) = []"
    by (simp add: rendered_example_eq viewer_state_of_def dispose_def startsWith_def
          super_dispose_def new_widget_def loadDocument_begin_def)
  then show ?thesis by (simp add: never_revokes)
qed

text \<open>The panel of an error whose fields are strings, and the load that shows it.\<close>

lemma escapeHtml_plain: "escapeHtml (JStr ''Internal Server Error'') = Some ''Internal Server Error''"
  by (simp add: escapeHtml_def dom_string_def escape_char_def)

lemma server_error_panel:
  "error_panel server_error = Some (panel_template ''Error'' ''Internal Server Error'' [] [])"
  by (simp add: error_panel_def server_error_def debugInfo_of_def tracebackSection_of_def
        traceback_of_def errorType_of_def errorMessage_of_def escapeHtml_def dom_string_def
        escape_char_def)

lemma resume_server_error:
  "loadDocument_resume pf (RejectedWith server_error) w
     = w\<lparr>iframe_display := ''none'', errorDiv_display := ''block'',
         errorDiv_innerHTML := panel_template ''Error'' ''Internal Server Error'' [] [],
         ready := reject server_error (ready w),
         loadDocument_promise := resolve (loadDocument_promise w)\<rparr>"
  by (simp add: loadDocument_resume_def load_try_rejected showError_def server_error_panel Let_def)

lemma failed_after_server_error:
  "viewer_state_of (step pf (RequestSettles (RejectedWith server_error)) (new_widget c)) = Failed"
  by (simp add: resume_server_error new_widget_def loadDocument_begin_def reject_def
        viewer_state_of_def)

theorem one_conversion_attempt_witness:
  "requests (run example_platform
       [RequestSettles (Fulfilled pdf_response), DisposeCalled,
        RequestSettles (RejectedWith server_error)] (new_widget example_context))
     = [convert_request ''notes.docx'']
   \<and> viewer_state_of rendered_example = Rendered
   \<and> viewer_state_of (step example_platform (RequestSettles (RejectedWith server_error)) rendered_example)
       = Rendered
   \<and> viewer_state_of (run example_platform
         [DisposeCalled, RequestSettles (Fulfilled pdf_response)] rendered_example) = Rendered"
proof -
  have h: "viewer_state_of rendered_example \<noteq> Loading"
    by (simp add: rendered_example_state)
  show ?thesis
    using h one_conversion_attempt[of example_platform
        "[RequestSettles (Fulfilled pdf_response), DisposeCalled,
          RequestSettles (RejectedWith server_error)]"
        example_context rendered_example "RequestSettles (RejectedWith server_error)"]
      one_conversion_attempt[of example_platform
        "[DisposeCalled, RequestSettles (Fulfilled pdf_response)]"
        example_context rendered_example DisposeCalled]
    by (simp add: rendered_example_state example_context_def)
qed

theorem dispose_idempotent_no_handle_witness:
  "isDisposed (dispose (new_widget example_context))
   \<and> dispose (dispose (new_widget example_context)) = dispose (new_widget example_context)
   \<and> viewer_state_of (run example_platform [RequestSettles (RejectedWith server_error)]
         (new_widget example_context)) = Failed
   \<and> created_urls (run example_platform [RequestSettles (RejectedWith server_error)]
         (new_widget example_context)) = []
   \<and> revoked_urls (dispose (run example_platform [RequestSettles (RejectedWith server_error)]
         (new_widget example_context))) = []"
proof -
  let ?w = "run example_platform [RequestSettles (RejectedWith server_error)] (new_widget example_context)"
  have f: "viewer_state_of ?w = Failed"
    by (simp add: failed_after_server_error del: step.simps)
  then have h: "viewer_state_of ?w \<noteq> Rendered" by simp
  have d: "isDisposed (dispose (new_widget example_context))"
    by (simp add: dispose_def super_dispose_def revokeObjectURL_def)
  show ?thesis
    using f h d
      dispose_idempotent_no_handle[of "dispose (new_widget example_context)" example_platform
        "[RequestSettles (RejectedWith server_error)]" example_context]
      dispose_idempotent_no_handle[of "new_widget example_context" example_platform
        "[RequestSettles (RejectedWith server_error)]" example_context]
    by simp
qed

lemma not_found_text:
  \<open>json_serialize not_found_payload =
     ''{"success":false,"error":"File not found: missing.docx","error_type":"PathNotFound","file_path":"missing.docx"}''\<close>
  by (simp add: not_found_payload_def json_members_def json_quote_def json_escape_char_def)

lemma escapeHtml_text:
  "list_all (\<lambda>c. c \<noteq> CHR ''&'' \<and> c \<noteq> CHR ''<'' \<and> c \<noteq> CHR ''>'' \<and> c \<noteq> CHR 0xA0) s
   \<Longrightarrow> escapeHtml (JStr s) = Some s"
proof -
  assume a: "list_all (\<lambda>c. c \<noteq> CHR ''&'' \<and> c \<noteq> CHR ''<'' \<and> c \<noteq> CHR ''>'' \<and> c \<noteq> CHR 0xA0) s"
  then have "concat (map escape_char s) = s"
    by (induction s) (simp_all add: escape_char_def)
  then show ?thesis by (simp add: escapeHtml_def dom_string_def)
qed

lemma not_found_rejection_panel:
  \<open>error_panel not_found_rejection =
     Some (panel_template ''Error''
       ''{"success":false,"error":"File not found: missing.docx","error_type":"PathNotFound","file_path":"missing.docx"}''
       [] [])\<close>
proof -
  have m: \<open>escapeHtml (JStr ''{"success":false,"error":"File not found: missing.docx","error_type":"PathNotFound","file_path":"missing.docx"}'')
     = Some ''{"success":false,"error":"File not found: missing.docx","error_type":"PathNotFound","file_path":"missing.docx"}''\<close>
    by (rule escapeHtml_text) simp
  have t: "escapeHtml (JStr ''Error'') = Some ''Error''"
    by (rule escapeHtml_text) simp
  show ?thesis
    unfolding not_found_rejection_def not_found_text
    by (simp add: error_panel_def debugInfo_of_def tracebackSection_of_def traceback_of_def
          errorType_of_def errorMessage_of_def m t)
qed

text \<open>
  C1 fails on the code for a payload that arrives as a rejection. In scenario B the
  request is rejected with an error whose message is the JSON text of the
  \<open>PathNotFound\<close> payload, and \<open>JSON.parse\<close> returns the payload; the handler still
  throws the original error (see \<open>catch_apiError_throws_original\<close>), so the panel shows
  the error type \<open>Error\<close>, the raw JSON text as the message and no path block. The same
  payload thrown as a response shows \<open>PathNotFound\<close>, its message and the requested path.
\<close>

theorem rejected_payload_fields_lost:
  \<open>Option.bind (to_string (get_prop ''message'' not_found_rejection)) (json_parse example_platform)
     = Some not_found_payload
   \<and> ready (loadDocument_resume example_platform (RejectedWith not_found_rejection)
        (new_widget example_context)) = Rejected not_found_rejection
   \<and> error_panel not_found_rejection
       = Some (errorDiv_innerHTML (loadDocument_resume example_platform
                 (RejectedWith not_found_rejection) (new_widget example_context)))
   \<and> errorDiv_innerHTML (loadDocument_resume example_platform (RejectedWith not_found_rejection)
        (new_widget example_context))
       = panel_template ''Error''
           ''{"success":false,"error":"File not found: missing.docx","error_type":"PathNotFound","file_path":"missing.docx"}''
           [] []
   \<and> errorType_of not_found_rejection = JStr ''Error''
   \<and> errorMessage_of not_found_rejection =
       JStr ''{"success":false,"error":"File not found: missing.docx","error_type":"PathNotFound","file_path":"missing.docx"}''
   \<and> debugInfo_of not_found_rejection = Some []
   \<and> errorType_of not_found_payload = JStr ''PathNotFound''
   \<and> errorMessage_of not_found_payload = JStr ''File not found: missing.docx''
   \<and> debugInfo_of not_found_payload =
       Some (''<div style="margin-top: 15px; padding: 10px; background: #f5f5f5; border-radius: 4px;">''
             @ ''<strong>Debug Information:</strong><br>''
             @ ''<div style="margin: 5px 0;"><strong>Requested path:</strong> <code>missing.docx</code></div>''
             @ ''</div>'')\<close>
proof -
  let ?w = "loadDocument_resume example_platform (RejectedWith not_found_rejection)
        (new_widget example_context)"
  have w: \<open>?w = (new_widget example_context)
      \<lparr>iframe_display := ''none'', errorDiv_display := ''block'',
       errorDiv_innerHTML := panel_template ''Error''
           ''{"success":false,"error":"File not found: missing.docx","error_type":"PathNotFound","file_path":"missing.docx"}''
           [] [],
       ready := reject not_found_rejection (ready (new_widget example_context)),
       loadDocument_promise := resolve (loadDocument_promise (new_widget example_context))\<rparr>\<close>
    by (simp add: loadDocument_resume_def load_try_rejected showError_def
          not_found_rejection_panel Let_def)
  have c1: "Option.bind (to_string (get_prop ''message'' not_found_rejection))
              (json_parse example_platform) = Some not_found_payload"
    by (simp add: example_platform_def not_found_rejection_def)
  have c2: "ready ?w = Rejected not_found_rejection"
    unfolding w by (simp add: new_widget_pending reject_def)
  have c4: \<open>errorDiv_innerHTML ?w = panel_template ''Error''
           ''{"success":false,"error":"File not found: missing.docx","error_type":"PathNotFound","file_path":"missing.docx"}''
           [] []\<close>
    unfolding w by simp
  have c3: "error_panel not_found_rejection = Some (errorDiv_innerHTML ?w)"
    unfolding c4 by (rule not_found_rejection_panel)
  have c5: "errorType_of not_found_rejection = JStr ''Error''"
    by (simp add: errorType_of_def not_found_rejection_def)
  have c6: \<open>errorMessage_of not_found_rejection =
       JStr ''{"success":false,"error":"File not found: missing.docx","error_type":"PathNotFound","file_path":"missing.docx"}''\<close>
    unfolding not_found_rejection_def not_found_text
    by (simp add: errorMessage_of_def)
  have c7: "debugInfo_of not_found_rejection = Some []"
    by (simp add: debugInfo_of_def not_found_rejection_def)
  have c8: "errorType_of not_found_payload = JStr ''PathNotFound''"
    by (simp add: errorType_of_def not_found_payload_def)
  have c9: "errorMessage_of not_found_payload = JStr ''File not found: missing.docx''"
    by (simp add: errorMessage_of_def not_found_payload_def)
  have c10: \<open>debugInfo_of not_found_payload =
       Some (''<div style="margin-top: 15px; padding: 10px; background: #f5f5f5; border-radius: 4px;">''
             @ ''<strong>Debug Information:</strong><br>''
             @ ''<div style="margin: 5px 0;"><strong>Requested path:</strong> <code>missing.docx</code></div>''
             @ ''</div>'')\<close>
    by (simp add: debugInfo_of_def not_found_payload_def)
  show ?thesis
    using c1 c2 c3 c4 c5 c6 c7 c8 c9 c10 by (intro conjI)
qed

lemma injected_debugInfo:
  \<open>debugInfo_of injected_payload =
     Some (''<div style="margin-top: 15px; padding: 10px; background: #f5f5f5; border-radius: 4px;">''
           @ ''<strong>Debug Information:</strong><br>''
           @ ''<div style="margin: 5px 0;"><strong>Requested path:</strong> <code>''
           @ ''<img src=x onerror=alert(1)>.docx''
           @ ''</code></div>''
           @ ''</div>'')\<close>
  by (simp add: debugInfo_of_def injected_payload_def)

lemma injected_panel:
  \<open>error_panel injected_payload =
     Some (panel_template ''ConversionFailure'' ''Conversion failed''
       (''<div style="margin-top: 15px; padding: 10px; background: #f5f5f5; border-radius: 4px;">''
           @ ''<strong>Debug Information:</strong><br>''
           @ ''<div style="margin: 5px 0;"><strong>Requested path:</strong> <code>''
           @ ''<img src=x onerror=alert(1)>.docx''
           @ ''</code></div>''
           @ ''</div>'') [])\<close>
proof -
  have t: "escapeHtml (JStr ''ConversionFailure'') = Some ''ConversionFailure''"
    by (rule escapeHtml_text) simp
  have m: "escapeHtml (JStr ''Conversion failed'') = Some ''Conversion failed''"
    by (rule escapeHtml_text) simp
  have ty: "errorType_of injected_payload = JStr ''ConversionFailure''"
    by (simp add: errorType_of_def injected_payload_def)
  have ms: "errorMessage_of injected_payload = JStr ''Conversion failed''"
    by (simp add: errorMessage_of_def injected_payload_def)
  have tb: "tracebackSection_of (traceback_of injected_payload) = Some []"
    by (simp add: tracebackSection_of_def traceback_of_def injected_payload_def)
  show ?thesis
    unfolding error_panel_def injected_debugInfo tb ty ms t m by simp
qed

text \<open>
  C3 fails on the code for the two paths. The panel for a payload whose \<open>file_path\<close>
  holds markup contains that markup as it is: the path block inserts \<open>file_path\<close> (and
  \<open>full_path\<close>) without \<open>_escapeHtml\<close>, which the error type, the message and the
  traceback go through.
\<close>

theorem path_inserted_unescaped:
  \<open>error_panel injected_payload
     = Some (errorDiv_innerHTML (loadDocument_resume pf (Fulfilled injected_payload) w))
   \<and> errorDiv_innerHTML (loadDocument_resume pf (Fulfilled injected_payload) w)
     = panel_template ''ConversionFailure'' ''Conversion failed''
         (''<div style="margin-top: 15px; padding: 10px; background: #f5f5f5; border-radius: 4px;">''
          @ ''<strong>Debug Information:</strong><br>''
          @ ''<div style="margin: 5px 0;"><strong>Requested path:</strong> <code>''
          @ ''<img src=x onerror=alert(1)>.docx''
          @ ''</code></div>''
          @ ''</div>'') []
   \<and> debugInfo_of injected_payload =
       Some (''<div style="margin-top: 15px; padding: 10px; background: #f5f5f5; border-radius: 4px;">''
             @ ''<strong>Debug Information:</strong><br>''
             @ ''<div style="margin: 5px 0;"><strong>Requested path:</strong> <code>''
             @ ''<img src=x onerror=alert(1)>.docx''
             @ ''</code></div>''
             @ ''</div>'')
   \<and> escapeHtml (get_prop ''file_path'' injected_payload)
       = Some ''&lt;img src=x onerror=alert(1)&gt;.docx''
   \<and> escapeHtml (errorType_of injected_payload) = Some ''ConversionFailure''\<close>
proof -
  have "process_response pf injected_payload w = Inl injected_payload"
    by (simp add: process_response_def injected_payload_def)
  then have c2: \<open>errorDiv_innerHTML (loadDocument_resume pf (Fulfilled injected_payload) w)
     = panel_template ''ConversionFailure'' ''Conversion failed''
         (''<div style="margin-top: 15px; padding: 10px; background: #f5f5f5; border-radius: 4px;">''
          @ ''<strong>Debug Information:</strong><br>''
          @ ''<div style="margin: 5px 0;"><strong>Requested path:</strong> <code>''
          @ ''<img src=x onerror=alert(1)>.docx''
          @ ''</code></div>''
          @ ''</div>'') []\<close>
    by (simp add: loadDocument_resume_def load_try_fulfilled showError_def injected_panel Let_def)
  have c1: "error_panel injected_payload
     = Some (errorDiv_innerHTML (loadDocument_resume pf (Fulfilled injected_payload) w))"
    unfolding c2 by (rule injected_panel)
  have c4: "escapeHtml (get_prop ''file_path'' injected_payload)
       = Some ''&lt;img src=x onerror=alert(1)&gt;.docx''"
    by (simp add: escapeHtml_def dom_string_def escape_char_def injected_payload_def)
  have c5: "escapeHtml (errorType_of injected_payload) = Some ''ConversionFailure''"
    by (simp add: escapeHtml_def dom_string_def escape_char_def injected_payload_def errorType_of_def)
  show ?thesis
    using c1 c2 injected_debugInfo c4 c5 by (intro conjI)
qed

lemma escape_char_nonempty: "escape_char c \<noteq> []"
  by (simp add: escape_char_def)

lemma escaped_nonempty: "s \<noteq> [] \<Longrightarrow> concat (map escape_char s) \<noteq> []"
  by (cases s) (simp_all add: escape_char_nonempty)

lemma escapeHtml_converts:
  "to_string v \<noteq> None \<Longrightarrow> \<exists>s. dom_string v = Some s \<and> escapeHtml v = Some (concat (map escape_char s))"
  by (cases "to_string v") (auto simp: escapeHtml_def dom_string_def)

lemma debugInfo_converts:
  assumes "to_string (get_prop ''file_path'' error) \<noteq> None"
    and "to_string (get_prop ''full_path'' error) \<noteq> None"
  shows "\<exists>dbg. debugInfo_of error = Some dbg"
  using assms by (auto simp: debugInfo_of_def)

lemma tracebackSection_converts:
  assumes "to_string traceback \<noteq> None"
  shows "\<exists>tb. tracebackSection_of traceback = Some tb"
proof -
  obtain s where "escapeHtml traceback = Some (concat (map escape_char s))"
    using escapeHtml_converts[OF assms] by blast
  then show ?thesis by (simp add: tracebackSection_of_def)
qed

lemma error_panel_converts:
  assumes "fields_convert error"
  shows "\<exists>ty msg dbg tb s.
           escapeHtml (errorType_of error) = Some ty
           \<and> dom_string (errorMessage_of error) = Some s
           \<and> escapeHtml (errorMessage_of error) = Some msg
           \<and> msg = concat (map escape_char s)
           \<and> debugInfo_of error = Some dbg
           \<and> tracebackSection_of (traceback_of error) = Some tb
           \<and> error_panel error = Some (panel_template ty msg dbg tb)"
proof -
  from assms have c:
    "to_string (get_prop ''file_path'' error) \<noteq> None"
    "to_string (get_prop ''full_path'' error) \<noteq> None"
    "to_string (traceback_of error) \<noteq> None"
    "to_string (errorType_of error) \<noteq> None"
    "to_string (errorMessage_of error) \<noteq> None"
    by (simp_all add: fields_convert_def shown_fields_def)
  obtain dbg where dbg: "debugInfo_of error = Some dbg"
    using debugInfo_converts[OF c(1) c(2)] by blast
  obtain tb where tb: "tracebackSection_of (traceback_of error) = Some tb"
    using tracebackSection_converts[OF c(3)] by blast
  obtain t where ty: "escapeHtml (errorType_of error) = Some (concat (map escape_char t))"
    using escapeHtml_converts[OF c(4)] by blast
  obtain s where ms: "dom_string (errorMessage_of error) = Some s"
    "escapeHtml (errorMessage_of error) = Some (concat (map escape_char s))"
    using escapeHtml_converts[OF c(5)] by blast
  have "error_panel error
          = Some (panel_template (concat (map escape_char t)) (concat (map escape_char s)) dbg tb)"
    by (simp add: error_panel_def dbg tb ty ms)
  with dbg tb ty ms show ?thesis by blast
qed

lemma resume_shown:
  assumes "load_try pf out w = Inl error" and "error_panel error = Some html"
  shows "loadDocument_resume pf out w
           = w\<lparr>iframe_display := ''none'', errorDiv_display := ''block'',
               errorDiv_innerHTML := html,
               ready := reject error (ready w),
               loadDocument_promise := resolve (loadDocument_promise w)\<rparr>"
  using assms by (simp add: loadDocument_resume_def showError_def Let_def)

lemma resume_not_shown:
  assumes "load_try pf out w = Inl error" and "error_panel error = None"
  shows "loadDocument_resume pf out w
           = w\<lparr>iframe_display := ''none'', errorDiv_display := ''block'',
               loadDocument_promise := reject conversion_error (loadDocument_promise w)\<rparr>"
  using assms by (simp add: loadDocument_resume_def showError_def Let_def)

lemma process_response_thrown:
  "\<not> nullish r \<Longrightarrow> \<not> (truthy (get_prop ''success'' r) \<and> truthy (get_prop ''pdf_data'' r))
     \<Longrightarrow> process_response pf r w = Inl r"
  by (auto simp: process_response_def)

lemma process_response_undecoded:
  "\<not> nullish r \<Longrightarrow> truthy (get_prop ''success'' r) \<Longrightarrow> truthy (get_prop ''pdf_data'' r)
     \<Longrightarrow> base64ToBlob (get_prop ''pdf_data'' r) ''application/pdf'' = Inl e
     \<Longrightarrow> process_response pf r w = Inl e"
  by (simp add: process_response_def)

lemma json_stringify_object:
  "is_object error \<Longrightarrow> \<exists>s. json_stringify error = JStr s \<and> s \<noteq> []"
  by (cases error) (simp_all add: is_object_def json_stringify_def)

lemma string_field_converts:
  "string_or_absent v \<Longrightarrow> truthy v \<Longrightarrow> \<exists>s. v = JStr s \<and> s \<noteq> []"
  by (cases v) (simp_all add: string_or_absent_def)

lemma envelope_message:
  assumes "is_object error"
    and "string_or_absent (get_prop ''error'' error)"
    and "string_or_absent (get_prop ''message'' error)"
  shows "\<exists>s. errorMessage_of error = JStr s \<and> s \<noteq> []"
proof (cases "truthy (get_prop ''error'' error)")
  case True
  then show ?thesis
    using string_field_converts[OF assms(2) True] by (simp add: errorMessage_of_def)
next
  case False
  note no_error = this
  show ?thesis
  proof (cases "truthy (get_prop ''message'' error)")
    case True
    then show ?thesis
      using no_error string_field_converts[OF assms(3) True] by (simp add: errorMessage_of_def)
  next
    case False
    have "\<not> (case error of JStr s \<Rightarrow> True | _ \<Rightarrow> False)"
      using assms(1) by (cases error) (simp_all add: is_object_def)
    then have "errorMessage_of error = json_stringify error"
      using no_error False by (simp add: errorMessage_of_def)
    then show ?thesis using json_stringify_object[OF assms(1)] by simp
  qed
qed

text \<open>
  C5, as amended. Every failure is caught: a rejection reaches the handler as the
  original error object, a response without a truthy \<open>success\<close> or \<open>pdf_data\<close> as
  the response itself, a \<open>pdf_data\<close> that does not decode as the exception of the
  decoding. Whenever the fields the panel shows convert to strings and the message does
  not convert to the empty string, the widget ends Failed: \<open>_ready\<close> is rejected with
  the caught error, the error div is shown, its content is the panel template filled
  with the escaped type, the escaped message (not empty), the path block and the
  traceback section, and \<open>_loadDocument\<close> returns normally, so no exception leaves it.
  The generic fallbacks: without an \<open>error_type\<close> the type shown is \<open>Error\<close>, and
  an error object without \<open>error\<close> and \<open>message\<close> is shown as its JSON text. An
  error object whose \<open>error\<close> and \<open>message\<close> are strings where present, as in the
  failure envelope, has a message that converts and is not empty.
\<close>

theorem failure_reaches_Failed:
  assumes "ready w = Pending" and "loadDocument_promise w = Pending"
  shows "load_try pf (RejectedWith apiError) w = Inl apiError
   \<and> (\<not> nullish r \<and> \<not> (truthy (get_prop ''success'' r) \<and> truthy (get_prop ''pdf_data'' r))
        \<longrightarrow> load_try pf (Fulfilled r) w = Inl r)
   \<and> (\<not> nullish r \<and> truthy (get_prop ''success'' r) \<and> truthy (get_prop ''pdf_data'' r)
        \<and> base64ToBlob (get_prop ''pdf_data'' r) ''application/pdf'' = Inl e
        \<longrightarrow> load_try pf (Fulfilled r) w = Inl e)
   \<and> (load_try pf out w = Inl error \<and> fields_convert error
        \<and> dom_string (errorMessage_of error) \<noteq> Some []
        \<longrightarrow> viewer_state_of (loadDocument_resume pf out w) = Failed
          \<and> ready (loadDocument_resume pf out w) = Rejected error
          \<and> loadDocument_promise (loadDocument_resume pf out w) = Resolved
          \<and> iframe_display (loadDocument_resume pf out w) = ''none''
          \<and> errorDiv_display (loadDocument_resume pf out w) = ''block''
          \<and> (\<exists>ty msg dbg tb.
                escapeHtml (errorType_of error) = Some ty
                \<and> escapeHtml (errorMessage_of error) = Some msg
                \<and> msg \<noteq> []
                \<and> debugInfo_of error = Some dbg
                \<and> tracebackSection_of (traceback_of error) = Some tb
                \<and> errorDiv_innerHTML (loadDocument_resume pf out w) = panel_template ty msg dbg tb))
   \<and> (\<not> truthy (get_prop ''error_type'' error) \<longrightarrow> errorType_of error = JStr ''Error'')
   \<and> (is_object error \<and> \<not> truthy (get_prop ''error'' error) \<and> \<not> truthy (get_prop ''message'' error)
        \<longrightarrow> errorMessage_of error = json_stringify error)
   \<and> (is_object error \<and> string_or_absent (get_prop ''error'' error)
        \<and> string_or_absent (get_prop ''message'' error)
        \<longrightarrow> to_string (errorMessage_of error) \<noteq> None
          \<and> dom_string (errorMessage_of error) \<noteq> Some [])"
proof (intro conjI impI)
  show "load_try pf (RejectedWith apiError) w = Inl apiError"
    by (rule load_try_rejected)
next
  assume "\<not> nullish r \<and> \<not> (truthy (get_prop ''success'' r) \<and> truthy (get_prop ''pdf_data'' r))"
  then show "load_try pf (Fulfilled r) w = Inl r"
    by (simp add: load_try_fulfilled process_response_thrown)
next
  assume "\<not> nullish r \<and> truthy (get_prop ''success'' r) \<and> truthy (get_prop ''pdf_data'' r)
        \<and> base64ToBlob (get_prop ''pdf_data'' r) ''application/pdf'' = Inl e"
  then show "load_try pf (Fulfilled r) w = Inl e"
    by (simp add: load_try_fulfilled process_response_undecoded)
next
  assume "\<not> truthy (get_prop ''error_type'' error)"
  then show "errorType_of error = JStr ''Error''" by (simp add: errorType_of_def)
next
  assume a: "is_object error \<and> \<not> truthy (get_prop ''error'' error)
               \<and> \<not> truthy (get_prop ''message'' error)"
  then have "\<not> (case error of JStr s \<Rightarrow> True | _ \<Rightarrow> False)"
    by (cases error) (simp_all add: is_object_def)
  with a show "errorMessage_of error = json_stringify error"
    by (simp add: errorMessage_of_def)
next
  assume "is_object error \<and> string_or_absent (get_prop ''error'' error)
        \<and> string_or_absent (get_prop ''message'' error)"
  then obtain s where s: "errorMessage_of error = JStr s" "s \<noteq> []"
    using envelope_message by blast
  show "to_string (errorMessage_of error) \<noteq> None" by (simp add: s)
  show "dom_string (errorMessage_of error) \<noteq> Some []" using s by (simp add: dom_string_def)
next
  assume a: "load_try pf out w = Inl error \<and> fields_convert error
        \<and> dom_string (errorMessage_of error) \<noteq> Some []"
  then obtain ty msg dbg tb s where p:
      "escapeHtml (errorType_of error) = Some ty"
      "dom_string (errorMessage_of error) = Some s"
      "escapeHtml (errorMessage_of error) = Some msg"
      "msg = concat (map escape_char s)"
      "debugInfo_of error = Some dbg"
      "tracebackSection_of (traceback_of error) = Some tb"
      "error_panel error = Some (panel_template ty msg dbg tb)"
    using error_panel_converts[of error] by blast
  from a p(2) have "s \<noteq> []" by simp
  then have ne: "msg \<noteq> []" unfolding p(4) by (rule escaped_nonempty)
  have r: "loadDocument_resume pf out w
           = w\<lparr>iframe_display := ''none'', errorDiv_display := ''block'',
               errorDiv_innerHTML := panel_template ty msg dbg tb,
               ready := reject error (ready w),
               loadDocument_promise := resolve (loadDocument_promise w)\<rparr>"
    using a p(7) by (simp add: resume_shown)
  show "viewer_state_of (loadDocument_resume pf out w) = Failed"
    unfolding r using assms by (simp add: viewer_state_of_def reject_def)
  show "ready (loadDocument_resume pf out w) = Rejected error"
    unfolding r using assms by (simp add: reject_def)
  show "loadDocument_promise (loadDocument_resume pf out w) = Resolved"
    unfolding r using assms by (simp add: resolve_def)
  show "iframe_display (loadDocument_resume pf out w) = ''none''"
    unfolding r by simp
  show "errorDiv_display (loadDocument_resume pf out w) = ''block''"
    unfolding r by simp
  show "\<exists>ty msg dbg tb.
                escapeHtml (errorType_of error) = Some ty
                \<and> escapeHtml (errorMessage_of error) = Some msg
                \<and> msg \<noteq> []
                \<and> debugInfo_of error = Some dbg
                \<and> tracebackSection_of (traceback_of error) = Some tb
                \<and> errorDiv_innerHTML (loadDocument_resume pf out w) = panel_template ty msg dbg tb"
    unfolding r using p ne by auto
qed

lemma example_parse_server_error:
  "json_parse example_platform ''Internal Server Error'' = None"
  by (simp add: example_platform_def not_found_text)

lemma atob_percent: "atob ''%%%'' = None"
  by (simp add: atob_def strip_padding_def is_ascii_whitespace_def b64_alphabet_def Let_def)

lemma server_error_fields: "fields_convert server_error"
  by (simp add: fields_convert_def shown_fields_def server_error_def traceback_of_def
        errorType_of_def errorMessage_of_def)

lemma empty_object_fields: "fields_convert (JObj [])"
  by (simp add: fields_convert_def shown_fields_def traceback_of_def errorType_of_def
        errorMessage_of_def json_stringify_def)

lemma invalid_character_fields: "fields_convert invalid_character_error"
  by (simp add: fields_convert_def shown_fields_def invalid_character_error_def traceback_of_def
        errorType_of_def errorMessage_of_def)

lemma server_error_literal:
  \<open>panel_template ''Error'' ''Internal Server Error'' [] [] =
     ''<div style="padding: 20px; font-family: sans-serif; overflow-y: auto; max-height: 100%;">''
     @ ''<h3 style="color: #d32f2f; margin: 0 0 15px 0;">Failed to load document</h3>''
     @ ''<div style="margin-bottom: 15px;">''
     @ ''<strong>Error Type:</strong> <code>Error</code>''
     @ ''</div>''
     @ ''<div style="margin-bottom: 15px; padding: 10px; background: #ffebee; border-left: 4px solid #d32f2f; border-radius: 4px;">''
     @ ''<strong>Error Message:</strong><br>''
     @ ''<pre style="margin: 5px 0; white-space: pre-wrap; font-family: monospace;">Internal Server Error</pre>''
     @ ''</div>''
     @ ''<div style="margin-top: 20px; padding: 15px; background: #e3f2fd; border-radius: 4px;">''
     @ ''<strong>Troubleshooting:</strong>''
     @ ''<ul style="margin: 10px 0; padding-left: 20px;">''
     @ ''<li>Check that mammoth and weasyprint are installed: <code>pip list | grep -E "mammoth|weasyprint"</code></li>''
     @ ''<li>Verify the extension is properly installed: <code>jupyter server extension list</code></li>''
     @ ''<li>Check the file is a valid DOCX, DOC, or RTF document</li>''
     @ ''<li>Ensure the file is not corrupted or password-protected</li>''
     @ ''<li>For legacy DOC files, consider converting to DOCX format</li>''
     @ ''<li>Check JupyterLab logs for more details: <code>/var/log/jupyterlab.log</code></li>''
     @ ''</ul>''
     @ ''</div>''
     @ ''</div>''\<close>
  by (simp add: panel_template_def troubleshooting_def)

theorem failure_reaches_Failed_witness:
  \<open>ready (new_widget example_context) = Pending
   \<and> loadDocument_promise (new_widget example_context) = Pending
   \<and> json_parse example_platform ''Internal Server Error'' = None
   \<and> load_try example_platform (RejectedWith server_error) (new_widget example_context)
       = Inl server_error
   \<and> fields_convert server_error
   \<and> dom_string (errorMessage_of server_error) = Some ''Internal Server Error''
   \<and> viewer_state_of (loadDocument_resume example_platform (RejectedWith server_error)
        (new_widget example_context)) = Failed
   \<and> ready (loadDocument_resume example_platform (RejectedWith server_error)
        (new_widget example_context)) = Rejected server_error
   \<and> loadDocument_promise (loadDocument_resume example_platform (RejectedWith server_error)
        (new_widget example_context)) = Resolved
   \<and> errorDiv_display (loadDocument_resume example_platform (RejectedWith server_error)
        (new_widget example_context)) = ''block''
   \<and> errorDiv_innerHTML (loadDocument_resume example_platform (RejectedWith server_error)
        (new_widget example_context)) =
     ''<div style="padding: 20px; font-family: sans-serif; overflow-y: auto; max-height: 100%;">''
     @ ''<h3 style="color: #d32f2f; margin: 0 0 15px 0;">Failed to load document</h3>''
     @ ''<div style="margin-bottom: 15px;">''
     @ ''<strong>Error Type:</strong> <code>Error</code>''
     @ ''</div>''
     @ ''<div style="margin-bottom: 15px; padding: 10px; background: #ffebee; border-left: 4px solid #d32f2f; border-radius: 4px;">''
     @ ''<strong>Error Message:</strong><br>''
     @ ''<pre style="margin: 5px 0; white-space: pre-wrap; font-family: monospace;">Internal Server Error</pre>''
     @ ''</div>''
     @ ''<div style="margin-top: 20px; padding: 15px; background: #e3f2fd; border-radius: 4px;">''
     @ ''<strong>Troubleshooting:</strong>''
     @ ''<ul style="margin: 10px 0; padding-left: 20px;">''
     @ ''<li>Check that mammoth and weasyprint are installed: <code>pip list | grep -E "mammoth|weasyprint"</code></li>''
     @ ''<li>Verify the extension is properly installed: <code>jupyter server extension list</code></li>''
     @ ''<li>Check the file is a valid DOCX, DOC, or RTF document</li>''
     @ ''<li>Ensure the file is not corrupted or password-protected</li>''
     @ ''<li>For legacy DOC files, consider converting to DOCX format</li>''
     @ ''<li>Check JupyterLab logs for more details: <code>/var/log/jupyterlab.log</code></li>''
     @ ''</ul>''
     @ ''</div>''
     @ ''</div>''
   \<and> load_try example_platform (Fulfilled (JObj [])) (new_widget example_context) = Inl (JObj [])
   \<and> fields_convert (JObj [])
   \<and> dom_string (errorMessage_of (JObj [])) = Some ''{}''
   \<and> viewer_state_of (loadDocument_resume example_platform (Fulfilled (JObj []))
        (new_widget example_context)) = Failed
   \<and> loadDocument_promise (loadDocument_resume example_platform (Fulfilled (JObj []))
        (new_widget example_context)) = Resolved
   \<and> load_try example_platform
        (Fulfilled (JObj [(''success'', JBool True), (''pdf_data'', JStr ''%%%'')]))
        (new_widget example_context) = Inl invalid_character_error
   \<and> fields_convert invalid_character_error
   \<and> viewer_state_of (loadDocument_resume example_platform
        (Fulfilled (JObj [(''success'', JBool True), (''pdf_data'', JStr ''%%%'')]))
        (new_widget example_context)) = Failed
   \<and> ready (loadDocument_resume example_platform
        (Fulfilled (JObj [(''success'', JBool True), (''pdf_data'', JStr ''%%%'')]))
        (new_widget example_context)) = Rejected invalid_character_error\<close>
proof -
  let ?w = "new_widget example_context"
  let ?bad = "JObj [(''success'', JBool True), (''pdf_data'', JStr ''%%%'')]"
  note p = new_widget_pending[of example_context]
  note inst = failure_reaches_Failed[OF p]
  have l1: "load_try example_platform (RejectedWith server_error) ?w = Inl server_error"
    using inst[of example_platform server_error] by simp
  have m1: "dom_string (errorMessage_of server_error) = Some ''Internal Server Error''"
    by (simp add: errorMessage_of_def server_error_def dom_string_def)
  have h1: "load_try example_platform (RejectedWith server_error) ?w = Inl server_error
      \<and> fields_convert server_error
      \<and> dom_string (errorMessage_of server_error) \<noteq> Some []"
    using l1 server_error_fields m1 by simp
  have l2: "load_try example_platform (Fulfilled (JObj [])) ?w = Inl (JObj [])"
    using inst[where pf = example_platform and r = "JObj []"] by simp
  have m2: "dom_string (errorMessage_of (JObj [])) = Some ''{}''"
    by (simp add: errorMessage_of_def json_stringify_def json_members_def dom_string_def)
  have h2: "load_try example_platform (Fulfilled (JObj [])) ?w = Inl (JObj [])
      \<and> fields_convert (JObj [])
      \<and> dom_string (errorMessage_of (JObj [])) \<noteq> Some []"
    using l2 empty_object_fields m2 by simp
  have b: "base64ToBlob (get_prop ''pdf_data'' ?bad) ''application/pdf'' = Inl invalid_character_error"
    by (simp add: base64ToBlob_def atob_percent)
  have l3: "load_try example_platform (Fulfilled ?bad) ?w = Inl invalid_character_error"
    using inst[where pf = example_platform and r = ?bad and e = invalid_character_error] b by simp
  have m3: "dom_string (errorMessage_of invalid_character_error) \<noteq> Some []"
    by (simp add: errorMessage_of_def invalid_character_error_def dom_string_def)
  have h3: "load_try example_platform (Fulfilled ?bad) ?w = Inl invalid_character_error
      \<and> fields_convert invalid_character_error
      \<and> dom_string (errorMessage_of invalid_character_error) \<noteq> Some []"
    using l3 invalid_character_fields m3 by simp
  have html: "errorDiv_innerHTML (loadDocument_resume example_platform (RejectedWith server_error) ?w)
       = panel_template ''Error'' ''Internal Server Error'' [] []"
    by (simp add: resume_server_error)
  show ?thesis
    unfolding html server_error_literal[symmetric]
    using p example_parse_server_error l1 l2 l3 m1 m2
      server_error_fields empty_object_fields invalid_character_fields
      inst[where pf = example_platform and out = "RejectedWith server_error" and error = server_error]
      inst[where pf = example_platform and out = "Fulfilled (JObj [])" and error = "JObj []"]
      inst[where pf = example_platform and out = "Fulfilled ?bad" and error = invalid_character_error]
      h1 h2 h3
    by simp
qed

lemma empty_array_panel:
  "error_panel empty_array_error = Some (panel_template ''Error'' [] [] [])"
  by (simp add: error_panel_def empty_array_error_def debugInfo_of_def tracebackSection_of_def
        traceback_of_def errorType_of_def errorMessage_of_def escapeHtml_def dom_string_def
        escape_char_def)

lemma unconvertible_type_panel: "error_panel unconvertible_type = None"
  by (simp add: error_panel_def unconvertible_type_def debugInfo_of_def tracebackSection_of_def
        traceback_of_def errorType_of_def errorMessage_of_def escapeHtml_def dom_string_def
        escape_char_def)

text \<open>
  C5 as stated fails twice. A response without a truthy \<open>success\<close> whose \<open>error\<close> is
  an empty array ends Failed with an empty message: an array is truthy and converts to
  the empty string. A response whose \<open>error_type\<close> is an object with a \<open>toString\<close>
  property makes \<open>_showError\<close> throw inside the handler: \<open>_ready\<close> stays pending,
  nothing is written to the error div, and the exception leaves \<open>_loadDocument\<close>.
\<close>

theorem empty_message_counterexample:
  "load_try example_platform (Fulfilled empty_array_error) (new_widget example_context)
     = Inl empty_array_error
   \<and> viewer_state_of (loadDocument_resume example_platform (Fulfilled empty_array_error)
        (new_widget example_context)) = Failed
   \<and> escapeHtml (errorMessage_of empty_array_error) = Some []
   \<and> errorDiv_innerHTML (loadDocument_resume example_platform (Fulfilled empty_array_error)
        (new_widget example_context)) = panel_template ''Error'' [] [] []
   \<and> load_try example_platform (Fulfilled unconvertible_type) (new_widget example_context)
     = Inl unconvertible_type
   \<and> viewer_state_of (loadDocument_resume example_platform (Fulfilled unconvertible_type)
        (new_widget example_context)) = Loading
   \<and> errorDiv_innerHTML (loadDocument_resume example_platform (Fulfilled unconvertible_type)
        (new_widget example_context)) = []
   \<and> loadDocument_promise (loadDocument_resume example_platform (Fulfilled unconvertible_type)
        (new_widget example_context)) = Rejected conversion_error"
proof -
  let ?w = "new_widget example_context"
  have l1: "load_try example_platform (Fulfilled empty_array_error) ?w = Inl empty_array_error"
    by (simp add: load_try_fulfilled process_response_def empty_array_error_def)
  have l2: "load_try example_platform (Fulfilled unconvertible_type) ?w = Inl unconvertible_type"
    by (simp add: load_try_fulfilled process_response_def unconvertible_type_def)
  have m: "escapeHtml (errorMessage_of empty_array_error) = Some []"
    by (simp add: errorMessage_of_def empty_array_error_def escapeHtml_def dom_string_def)
  note r1 = resume_shown[OF l1 empty_array_panel]
  note r2 = resume_not_shown[OF l2 unconvertible_type_panel]
  have e: "errorDiv_innerHTML ?w = []"
    by (simp add: new_widget_def loadDocument_begin_def)
  show ?thesis
    unfolding r1 r2 using l1 l2 m e new_widget_pending[of example_context]
    by (simp add: viewer_state_of_def reject_def)
qed










subsection \<open>The document model\<close>

lemma model_step_id: "model_step c m = m"
  by (cases c)
     (simp_all add: DocModel_fromString_def DocModel_fromJSON_def DocModel_initialize_def
        DocModel_dispose_def)

lemma model_run_id: "model_run calls m = m"
  unfolding model_run_def by (induction calls) (simp_all add: model_step_id)

text \<open>
  C8. The document model offers no write-back: after every sequence of calls on a
  \<open>DocModel\<close> it is read-only and not dirty, \<open>fromString\<close>, \<open>fromJSON\<close> and
  \<open>initialize\<close> leave it unchanged, and neither \<open>contentChanged\<close> nor
  \<open>stateChanged\<close> has emitted anything.
\<close>

theorem DocModel_no_write_back:
  "DocModel_readOnly (model_run calls new_DocModel)
   \<and> \<not> DocModel_dirty (model_run calls new_DocModel)
   \<and> DocModel_fromString s (model_run calls new_DocModel) = model_run calls new_DocModel
   \<and> DocModel_fromJSON v (model_run calls new_DocModel) = model_run calls new_DocModel
   \<and> DocModel_initialize (model_run calls new_DocModel) = model_run calls new_DocModel
   \<and> emitted (contentChanged (model_run calls new_DocModel)) = []
   \<and> emitted (stateChanged (model_run calls new_DocModel)) = []"
  by (simp add: model_run_id DocModel_readOnly_def DocModel_dirty_def DocModel_fromString_def
        DocModel_fromJSON_def DocModel_initialize_def new_DocModel_def)

subsection \<open>Plugin activation\<close>

lemma register_fileType_factories:
  "registered_factories (docRegistry (register_fileType refuses ft a))
     = registered_factories (docRegistry a)"
  by (simp add: register_fileType_def addFileType_def console_log_def)

lemma fold_register_factories:
  "registered_factories (docRegistry (fold (register_fileType refuses) fts a))
     = registered_factories (docRegistry a)"
  by (induction fts arbitrary: a) (simp_all add: register_fileType_factories)

lemma activate_factories:
  "registered_factories (docRegistry (activate refuses a))
     = registered_factories (docRegistry a) @ [document_reader_factory]"
  by (simp add: activate_def Let_def console_log_def addWidgetFactory_def
        fold_register_factories)

lemma register_fileType_accepted:
  "registered_fileTypes (docRegistry (register_fileType (\<lambda>reg ft. False) ft a))
     = registered_fileTypes (docRegistry a) @ [options_of ft]"
  by (simp add: register_fileType_def addFileType_def console_log_def)

lemma fold_register_accepted:
  "registered_fileTypes (docRegistry (fold (register_fileType (\<lambda>reg ft. False)) fts a))
     = registered_fileTypes (docRegistry a) @ map options_of fts"
  by (induction fts arbitrary: a) (simp_all add: register_fileType_accepted)

lemma activate_fileTypes:
  "registered_fileTypes (docRegistry (activate (\<lambda>reg ft. False) a))
     = registered_fileTypes (docRegistry a) @ map options_of FILE_TYPES"
  by (simp add: activate_def Let_def console_log_def addWidgetFactory_def
        fold_register_accepted)

lemma options_of_FILE_TYPES:
  "map options_of FILE_TYPES =
       [\<lparr>name = ''docx'', displayName = ''Word Document (DOCX)'', extensions = [''.docx''],
         mimeTypes = [''application/vnd.openxmlformats-officedocument.wordprocessingml.document'']\<rparr>,
        \<lparr>name = ''doc'', displayName = ''Word Document (DOC)'', extensions = [''.doc''],
         mimeTypes = [''application/msword'']\<rparr>,
        \<lparr>name = ''rtf'', displayName = ''Rich Text Format'', extensions = [''.rtf''],
         mimeTypes = [''application/rtf'', ''text/rtf'']\<rparr>]"
  by (simp add: FILE_TYPES_def options_of_def)

lemma factory_value:
  "document_reader_factory =
       \<lparr>factory_name = ''Document Reader'', modelName = ''base64'',
         fileTypes = [''docx'', ''doc'', ''rtf''],
         defaultFor = [''docx'', ''doc'', ''rtf''],
         readOnly = True\<rparr>"
  by (simp add: document_reader_factory_def FILE_TYPES_def)

text \<open>
  C9. At activation, on a registry that accepts them, exactly the file types docx, doc
  and rtf are added, each with its extension and media types, and the Document Reader
  factory is added as the default, read-only viewer of the three; the factory is added
  whatever the registry does with the file types.
\<close>

theorem activate_registers:
  "registered_fileTypes (docRegistry (activate (\<lambda>reg ft. False) a))
     = registered_fileTypes (docRegistry a) @
       [\<lparr>name = ''docx'', displayName = ''Word Document (DOCX)'', extensions = [''.docx''],
         mimeTypes = [''application/vnd.openxmlformats-officedocument.wordprocessingml.document'']\<rparr>,
        \<lparr>name = ''doc'', displayName = ''Word Document (DOC)'', extensions = [''.doc''],
         mimeTypes = [''application/msword'']\<rparr>,
        \<lparr>name = ''rtf'', displayName = ''Rich Text Format'', extensions = [''.rtf''],
         mimeTypes = [''application/rtf'', ''text/rtf'']\<rparr>]
   \<and> registered_factories (docRegistry (activate refuses a))
     = registered_factories (docRegistry a) @
       [\<lparr>factory_name = ''Document Reader'', modelName = ''base64'',
         fileTypes = [''docx'', ''doc'', ''rtf''],
         defaultFor = [''docx'', ''doc'', ''rtf''],
         readOnly = True\<rparr>]"
  by (simp only: activate_fileTypes activate_factories options_of_FILE_TYPES factory_value)

end
